theory Spec2Isabelle
  imports Main
begin

section \<open>The call object of lib/webrtc/call.js\<close>

text \<open>
  A shallow embedding of \<^verbatim>\<open>MatrixCall\<close>. The call is a record of the fields the
  JavaScript object carries. Every method takes the call and returns the updated
  call together with the list of things it asked its collaborators to do, in
  program order: events published through the client, timers armed with
  \<^verbatim>\<open>setTimeout\<close>, events emitted to listeners, and calls on the browser's media
  objects. The listeners, the client and the browser are the host's; what they do
  with a request is not part of the call, but for one case: the event emitter
  throws an \<^verbatim>\<open>error\<close> event that nobody listens for. A callback the source hands to a timer,
  a promise or the browser is a function of its own here, run by whoever fires
  it. A thrown exception is \<open>Inl\<close>: the method is abandoned at the throw and what
  it had done until then is not reported.
\<close>

subsection \<open>Values\<close>

datatype error = TypeError | MissingKey string | NoErrorListener | UnhandledError string

text \<open>The JavaScript values that reach \<^verbatim>\<open>hangup\<close>'s two parameters.\<close>

datatype jsval = Undefined | JBool bool | JStr string

fun truthy :: "jsval \<Rightarrow> bool" where
  "truthy Undefined = False"
| "truthy (JBool b) = b"
| "truthy (JStr s) = (s \<noteq> [])"

datatype call_state =
    Fledgling | WaitLocalMedia | CreateOffer | CreateAnswer | InviteSent
  | Ringing | Connecting | Connected | Ended

datatype call_type = Voice | Video

datatype direction = Inbound | Outbound

datatype party = Local | Remote

record turn_server =
  urls :: "string list option"
  username :: "string option"
  credential :: "string option"

record candidate =
  cand :: string
  sdpMid :: string
  sdpMLineIndex :: nat

record session_description =
  sdp :: string
  sdtype :: string

record track =
  trackId :: nat
  hasStop :: bool

record stream =
  streamId :: nat
  videoTracks :: "track list"
  audioTracks :: "track list"
  streamHasStop :: bool

record element =
  elementId :: nat
  hasPause :: bool
  hasPlay :: bool

text \<open>
  The peer connection belongs to the browser. The call reads three of its
  properties; they are kept as the browser last reported them.
\<close>

record peer_conn =
  signalingState :: string
  iceConnectionState :: string
  localDescription :: "session_description option"

record invite_content =
  offer :: session_description
  lifetime :: int

record webrtc =
  vendor :: "string option"
  isOpenWebRTC :: bool

datatype video_constraint = NoVideo | Mandatory nat nat nat nat

record constraints =
  audio :: bool
  video :: video_constraint

subsection \<open>What a method asks of its collaborators\<close>

datatype content =
    InviteContent nat string session_description int
  | AnswerContent nat string session_description
  | CandidatesContent nat string "candidate list"
  | HangupContent nat string jsval

datatype emitted = OnHangup | ErrorEvent string | Replaced string

datatype timer =
    RingingTimer | InviteTimer | CandidateQueueTimer | PlayLocalTimer | PlayRemoteTimer

text \<open>The members of \<^verbatim>\<open>MatrixCall.prototype\<close> that are handed out as callbacks.\<close>

datatype handler =
    GotUserMediaForInvite | GotUserMediaForAnswer | GetUserMediaFailed
  | GotLocalOffer | GetLocalOfferFailed
  | OnSetRemoteDescriptionSuccess | OnSetRemoteDescriptionError
  | OnIceConnectionStateChanged | OnSignallingStateChanged
  | GotLocalIceCandidate | OnAddStream
  | OnRemoteStreamStarted | OnRemoteStreamEnded | OnRemoteStreamTrackStarted

record mozilla_server =
  url :: string
  moz_username :: "string option"
  moz_credential :: "string option"

datatype ice_servers = AsConfigured "turn_server list" | PerUrl "mozilla_server list"

datatype arg =
    NoArg | StreamArg stream | DescriptionArg session_description
  | CandidateArg "candidate option"

datatype continuation = ThenInvite | ThenAnswer

datatype effect =
    SendEvent string string content
  | SetTimeout timer int
  | Emit emitted
  | RegisterCall string
  | GetUserMedia "constraints option" "handler option" "handler option"
  | NewPeerConnection ice_servers "(string \<times> handler option) list"
  | SetRemoteDescription session_description "handler option" "handler option"
  | SetLocalDescription session_description continuation
  | SuccessorGotUserMediaForAnswer string "stream option"
  | CreateOfferReq "handler option" "handler option"
  | CreateAnswerReq bool
  | AddStream stream
  | AddIceCandidate candidate
  | ClosePeerConn
  | StopTrack nat
  | StopStream nat
  | EnableTrack nat
  | HookTrackStarted nat "handler option"
  | HookStreamEnded nat "handler option"
  | HookStreamStarted nat "handler option"
  | PauseElement nat
  | PlayElement nat
  | BindElement nat nat bool

subsection \<open>The call\<close>

record call =
  roomId :: string
  webRtc :: webrtc
  turnServers :: "turn_server list"
  callId :: string
  state :: call_state
  didConnect :: bool
  candidateSendQueue :: "candidate list"
  candidateSendTries :: nat
  ctype :: "call_type option"
  direction :: "direction option"
  hangupParty :: "party option"
  hangupReason :: jsval
  msg :: "invite_content option"
  peerConn :: "peer_conn option"
  localAVStream :: "stream option"
  remoteAVStream :: "stream option"
  waitForLocalAVStream :: bool
  localVideoElement :: "element option"
  remoteVideoElement :: "element option"
  successor :: "string option"
  config :: "constraints option"
  errorListeners :: nat

type_synonym outcome = "call \<times> effect list"

type_synonym result = "error + outcome"

subsection \<open>Constants of the class\<close>

definition CALL_TIMEOUT_MS :: int where
  "CALL_TIMEOUT_MS = 60000"

definition FALLBACK_STUN_SERVER :: string where
  "FALLBACK_STUN_SERVER = ''stun:stun.l.google.com:19302''"

definition ERR_LOCAL_OFFER_FAILED :: string where
  "ERR_LOCAL_OFFER_FAILED = ''local_offer_failed''"

definition ERR_NO_USER_MEDIA :: string where
  "ERR_NO_USER_MEDIA = ''no_user_media''"

subsection \<open>Construction\<close>

record opts =
  opt_roomId :: string
  opt_webRtc :: webrtc
  opt_turnServers :: "turn_server list option"

text \<open>
  Modelled from the spec: \<^verbatim>\<open>utils.checkObjectHasKeys\<close> and \<^verbatim>\<open>utils.forEach\<close> live in
  \<^verbatim>\<open>lib/utils\<close>, outside this module. The data model gives every
  configuration a mandatory \<^verbatim>\<open>urls\<close> and optional \<^verbatim>\<open>username\<close> and \<^verbatim>\<open>credential\<close>;
  the check raises for an entry without the key, and the loop visits the
  entries in order.
\<close>

definition checkObjectHasKeys :: "turn_server \<Rightarrow> error + unit" where
  "checkObjectHasKeys server =
     (case urls server of None \<Rightarrow> Inl (MissingKey ''urls'') | Some _ \<Rightarrow> Inr ())"

fun forEach :: "turn_server list \<Rightarrow> (turn_server \<Rightarrow> error + unit) \<Rightarrow> error + unit" where
  "forEach [] f = Inr ()"
| "forEach (x # xs) f = (case f x of Inl e \<Rightarrow> Inl e | Inr _ \<Rightarrow> forEach xs f)"

text \<open>
  \<^verbatim>\<open>opts.turnServers || [{urls: [FALLBACK_STUN_SERVER]}]\<close>: an absent option is
  \<open>None\<close>; an array, empty or not, is an object and so is truthy.
\<close>

definition turnServers_or_fallback :: "turn_server list option \<Rightarrow> turn_server list" where
  "turnServers_or_fallback supplied =
     (case supplied of
        Some servers \<Rightarrow> servers
      | None \<Rightarrow> [\<lparr>urls = Some [FALLBACK_STUN_SERVER], username = None, credential = None\<rparr>])"

text \<open>
  The constructor. \<open>stamp\<close> is \<^verbatim>\<open>new Date().getTime()\<close> as JavaScript prints it.
\<close>

definition MatrixCall :: "opts \<Rightarrow> string \<Rightarrow> error + call" where
  "MatrixCall opts stamp =
     (let servers = turnServers_or_fallback (opt_turnServers opts) in
      case forEach servers checkObjectHasKeys of
        Inl e \<Rightarrow> Inl e
      | Inr _ \<Rightarrow> Inr \<lparr>
          roomId = opt_roomId opts,
          webRtc = opt_webRtc opts,
          turnServers = servers,
          callId = ''c'' @ stamp,
          state = Fledgling,
          didConnect = False,
          candidateSendQueue = [],
          candidateSendTries = 0,
          ctype = None,
          direction = None,
          hangupParty = None,
          hangupReason = Undefined,
          msg = None,
          peerConn = None,
          localAVStream = None,
          remoteAVStream = None,
          waitForLocalAVStream = False,
          localVideoElement = None,
          remoteVideoElement = None,
          successor = None,
          config = None,
          errorListeners = 0 \<rparr>)"

subsection \<open>Publishing, and the candidate queue\<close>

definition sendEvent :: "call \<Rightarrow> string \<Rightarrow> content \<Rightarrow> effect" where
  "sendEvent self eventType c = SendEvent (roomId self) eventType c"

text \<open>
  \<^verbatim>\<open>sendCandidate\<close>: push, and arm the 100 ms timer when the try counter is zero.
\<close>

definition sendCandidate :: "call \<Rightarrow> candidate \<Rightarrow> outcome" where
  "sendCandidate self c =
     (let self1 = self\<lparr>candidateSendQueue := candidateSendQueue self @ [c]\<rparr> in
      if candidateSendTries self1 = 0
      then (self1, [SetTimeout CandidateQueueTimer 100])
      else (self1, []))"

text \<open>
  \<^verbatim>\<open>_sendCandidateQueue\<close> up to the publish. The two functions handed to
  \<^verbatim>\<open>then\<close> follow: \<open>candidatesSent\<close> runs when the publish succeeds,
  \<open>candidatesFailed\<close> when it fails, with the batch the closure captured.
\<close>

definition sendCandidateQueue :: "call \<Rightarrow> outcome" where
  "sendCandidateQueue self =
     (if length (candidateSendQueue self) = 0 then (self, [])
      else
        let cands = candidateSendQueue self;
            self1 = self\<lparr>candidateSendQueue := [],
                         candidateSendTries := candidateSendTries self + 1\<rparr>
        in (self1,
            [sendEvent self1 ''m.call.candidates''
               (CandidatesContent 0 (callId self1) cands)]))"

definition candidatesSent :: "call \<Rightarrow> outcome" where
  "candidatesSent self = sendCandidateQueue (self\<lparr>candidateSendTries := 0\<rparr>)"

text \<open>The loop \<^verbatim>\<open>for (i = 0; i < cands.length; i++) queue.push(cands[i])\<close>.\<close>

fun push_each :: "candidate list \<Rightarrow> candidate list \<Rightarrow> candidate list" where
  "push_each queue [] = queue"
| "push_each queue (c # cs) = push_each (queue @ [c]) cs"

definition candidatesFailed :: "call \<Rightarrow> candidate list \<Rightarrow> outcome" where
  "candidatesFailed self cands =
     (let self1 = self\<lparr>candidateSendQueue := push_each (candidateSendQueue self) cands\<rparr> in
      if candidateSendTries self1 > 5
      then (self1\<lparr>candidateSendTries := 0\<rparr>, [])
      else
        let delayMs = 500 * 2 ^ candidateSendTries self1;
            self2 = self1\<lparr>candidateSendTries := candidateSendTries self1 + 1\<rparr>
        in (self2, [SetTimeout CandidateQueueTimer delayMs]))"

subsection \<open>Callbacks by name\<close>

text \<open>
  \<^verbatim>\<open>self.name\<close> for a callback: the members the class defines, and \<^verbatim>\<open>undefined\<close>
  (\<open>None\<close>) for every other name.
\<close>

definition prototype :: "(string \<times> handler) list" where
  "prototype =
     [(''_gotUserMediaForInvite'', GotUserMediaForInvite),
      (''_gotUserMediaForAnswer'', GotUserMediaForAnswer),
      (''_getUserMediaFailed'', GetUserMediaFailed),
      (''_gotLocalOffer'', GotLocalOffer),
      (''_getLocalOfferFailed'', GetLocalOfferFailed),
      (''_onSetRemoteDescriptionSuccess'', OnSetRemoteDescriptionSuccess),
      (''_onSetRemoteDescriptionError'', OnSetRemoteDescriptionError),
      (''_onIceConnectionStateChanged'', OnIceConnectionStateChanged),
      (''_onSignallingStateChanged'', OnSignallingStateChanged),
      (''_gotLocalIceCandidate'', GotLocalIceCandidate),
      (''_onAddStream'', OnAddStream),
      (''_onRemoteStreamStarted'', OnRemoteStreamStarted),
      (''_onRemoteStreamEnded'', OnRemoteStreamEnded),
      (''_onRemoteStreamTrackStarted'', OnRemoteStreamTrackStarted)]"

definition memberOf :: "string \<Rightarrow> handler option" where
  "memberOf name = map_of prototype name"

subsection \<open>Media helpers\<close>

fun getUserMediaVideoContraints :: "call_type option \<Rightarrow> constraints option" where
  "getUserMediaVideoContraints (Some Voice) = Some \<lparr>audio = True, video = NoVideo\<rparr>"
| "getUserMediaVideoContraints (Some Video) =
     Some \<lparr>audio = True, video = Mandatory 640 640 360 360\<rparr>"
| "getUserMediaVideoContraints None = None"

definition forAllTracksOnStream :: "stream \<Rightarrow> (track \<Rightarrow> effect list) \<Rightarrow> effect list" where
  "forAllTracksOnStream s f =
     concat (map f (videoTracks s)) @ concat (map f (audioTracks s))"

definition stopTrack :: "track \<Rightarrow> effect list" where
  "stopTrack t = (if hasStop t then [StopTrack (trackId t)] else [])"

definition stopAllMedia :: "call \<Rightarrow> effect list" where
  "stopAllMedia self =
     (case localAVStream self of
        None \<Rightarrow> []
      | Some s \<Rightarrow> forAllTracksOnStream s stopTrack
                  @ (if streamHasStop s then [StopStream (streamId s)] else []))
     @ (case remoteAVStream self of
          None \<Rightarrow> []
        | Some s \<Rightarrow> forAllTracksOnStream s stopTrack)"

definition pauseElement :: "element option \<Rightarrow> effect list" where
  "pauseElement el =
     (case el of
        None \<Rightarrow> []
      | Some e \<Rightarrow> if hasPause e then [PauseElement (elementId e)] else [])"

definition tryPlayRemoteStream :: "call \<Rightarrow> effect list" where
  "tryPlayRemoteStream self =
     (case remoteVideoElement self of
        None \<Rightarrow> []
      | Some player \<Rightarrow>
          (case remoteAVStream self of
             None \<Rightarrow> []
           | Some s \<Rightarrow> [BindElement (elementId player) (streamId s) False,
                        SetTimeout PlayRemoteTimer 0]))"

text \<open>The two zero-delay callbacks that start playback.\<close>

definition playLocalFired :: "call \<Rightarrow> result" where
  "playLocalFired self =
     (case localVideoElement self of
        None \<Rightarrow> Inl TypeError
      | Some vel \<Rightarrow> Inr (self, if hasPlay vel then [PlayElement (elementId vel)] else []))"

definition playRemoteFired :: "call \<Rightarrow> result" where
  "playRemoteFired self =
     (case remoteVideoElement self of
        None \<Rightarrow> Inl TypeError
      | Some vel \<Rightarrow>
          Inr (if isOpenWebRTC (webRtc self) then self\<lparr>state := Connected\<rparr> else self,
               if hasPlay vel then [PlayElement (elementId vel)] else []))"

subsection \<open>Ending a call\<close>

definition terminate :: "call \<Rightarrow> party \<Rightarrow> jsval \<Rightarrow> bool \<Rightarrow> outcome" where
  "terminate self party reason shouldEmit =
     (let pauses = pauseElement (remoteVideoElement self) @ pauseElement (localVideoElement self);
          self1 = self\<lparr>state := Ended, hangupParty := Some party, hangupReason := reason\<rparr>;
          stops = stopAllMedia self1;
          closes = (case peerConn self1 of
                      None \<Rightarrow> []
                    | Some pc \<Rightarrow>
                        if party = Local \<or> signalingState pc \<noteq> ''closed''
                        then [ClosePeerConn] else []);
          emits = (if shouldEmit then [Emit OnHangup] else [])
      in (self1, pauses @ stops @ closes @ emits))"

text \<open>
  \<^verbatim>\<open>hangup(reason, suppressEvent)\<close>. A parameter the caller leaves out is
  \<open>Undefined\<close>.
\<close>

definition hangup :: "call \<Rightarrow> jsval \<Rightarrow> jsval \<Rightarrow> outcome" where
  "hangup self reason suppressEvent =
     (let (self1, effs) = terminate self Local reason (\<not> truthy suppressEvent)
      in (self1,
          effs @ [sendEvent self1 ''m.call.hangup''
                    (HangupContent 0 (callId self1) reason)]))"

definition onHangupReceived :: "call \<Rightarrow> jsval \<Rightarrow> outcome" where
  "onHangupReceived self reason = terminate self Remote reason True"

definition onAnsweredElsewhere :: "call \<Rightarrow> outcome" where
  "onAnsweredElsewhere self = terminate self Remote (JStr ''answered_elsewhere'') True"

text \<open>
  \<^verbatim>\<open>this.emit("error", e)\<close>. The class inherits from the runtime's event emitter,
  which throws \<open>e\<close> when no listener for \<^verbatim>\<open>error\<close> is attached; this is what
  \<^verbatim>\<open>checkForErrorListener\<close> is there to rule out before a call is placed. With a
  listener the emission is logged.
\<close>

definition emitError :: "call \<Rightarrow> string \<Rightarrow> error + effect" where
  "emitError self code =
     (if errorListeners self = 0 then Inl (UnhandledError code)
      else Inr (Emit (ErrorEvent code)))"

definition getLocalOfferFailed :: "call \<Rightarrow> result" where
  "getLocalOfferFailed self =
     (case emitError self ERR_LOCAL_OFFER_FAILED of
        Inl e \<Rightarrow> Inl e
      | Inr emitted \<Rightarrow> Inr (self, [emitted]))"

definition getUserMediaFailed :: "call \<Rightarrow> result" where
  "getUserMediaFailed self =
     (case emitError self ERR_NO_USER_MEDIA of
        Inl e \<Rightarrow> Inl e
      | Inr emitted \<Rightarrow>
          let (self1, effs) = hangup self Undefined Undefined
          in Inr (self1, emitted # effs))"

subsection \<open>The peer connection\<close>

fun mozillaServers :: "turn_server list \<Rightarrow> error + mozilla_server list" where
  "mozillaServers [] = Inr []"
| "mozillaServers (s # ss) =
     (case urls s of
        None \<Rightarrow> Inl TypeError
      | Some us \<Rightarrow>
          (case mozillaServers ss of
             Inl e \<Rightarrow> Inl e
           | Inr rest \<Rightarrow>
               Inr (map (\<lambda>u. \<lparr>url = u, moz_username = username s,
                               moz_credential = credential s\<rparr>) us @ rest)))"

definition pcHooks :: "(string \<times> handler option) list" where
  "pcHooks =
     [(''oniceconnectionstatechange'', memberOf ''_onIceConnectionStateChanged''),
      (''onsignalingstatechange'', memberOf ''_onSignallingStateChanged''),
      (''onicecandidate'', memberOf ''_gotLocalIceCandidate''),
      (''onaddstream'', memberOf ''_onAddStream'')]"

text \<open>
  \<^verbatim>\<open>_createPeerConnection\<close>. The object the browser's constructor returns starts
  with signalling state \<^verbatim>\<open>stable\<close>, ICE state \<^verbatim>\<open>new\<close> and no local description.
\<close>

definition createPeerConnection :: "call \<Rightarrow> error + (peer_conn \<times> effect list)" where
  "createPeerConnection self =
     (let pc = \<lparr>signalingState = ''stable'', iceConnectionState = ''new'',
                localDescription = None\<rparr>
      in if vendor (webRtc self) = Some ''mozilla''
         then (case mozillaServers (turnServers self) of
                 Inl e \<Rightarrow> Inl e
               | Inr servers \<Rightarrow> Inr (pc, [NewPeerConnection (PerUrl servers) pcHooks]))
         else Inr (pc, [NewPeerConnection (AsConfigured (turnServers self)) pcHooks]))"

subsection \<open>Placing a call\<close>

definition checkForErrorListener :: "call \<Rightarrow> error + unit" where
  "checkForErrorListener self =
     (if errorListeners self = 0 then Inl NoErrorListener else Inr ())"

definition placeCallWithConstraints :: "call \<Rightarrow> constraints option \<Rightarrow> outcome" where
  "placeCallWithConstraints self cons =
     (self\<lparr>state := WaitLocalMedia, direction := Some Outbound, config := cons\<rparr>,
      [RegisterCall (callId self),
       GetUserMedia cons (memberOf ''_gotUserMediaForInvite'') (memberOf ''_getUserMediaFailed'')])"

definition placeVoiceCall :: "call \<Rightarrow> result" where
  "placeVoiceCall self =
     (case checkForErrorListener self of
        Inl e \<Rightarrow> Inl e
      | Inr _ \<Rightarrow>
          let (self1, effs) =
                placeCallWithConstraints self (getUserMediaVideoContraints (Some Voice))
          in Inr (self1\<lparr>ctype := Some Voice\<rparr>, effs))"

definition placeVideoCall :: "call \<Rightarrow> element option \<Rightarrow> element option \<Rightarrow> result" where
  "placeVideoCall self localEl remoteEl =
     (case checkForErrorListener self of
        Inl e \<Rightarrow> Inl e
      | Inr _ \<Rightarrow>
          let self0 = self\<lparr>localVideoElement := localEl, remoteVideoElement := remoteEl\<rparr>;
              (self1, effs) =
                placeCallWithConstraints self0 (getUserMediaVideoContraints (Some Video));
              self2 = self1\<lparr>ctype := Some Video\<rparr>
          in Inr (self2, effs @ tryPlayRemoteStream self2))"

text \<open>
  Binding the local preview, shared by the invite and the answer path:
  \<^verbatim>\<open>if (videoEl && this.type == 'video') { ...; setTimeout(play, 0) }\<close>. The
  flag of \<open>BindElement\<close> is \<^verbatim>\<open>muted\<close>: the invite path assigns \<^verbatim>\<open>true\<close>, the
  answer path assigns the call object, which is truthy; the remote player's is
  left unset.
\<close>

definition bindLocalVideo :: "call \<Rightarrow> stream \<Rightarrow> effect list" where
  "bindLocalVideo self s =
     (case localVideoElement self of
        None \<Rightarrow> []
      | Some el \<Rightarrow>
          if ctype self = Some Video
          then [BindElement (elementId el) (streamId s) True, SetTimeout PlayLocalTimer 0]
          else [])"

definition enableAudioTracks :: "stream \<Rightarrow> effect list" where
  "enableAudioTracks s = map (\<lambda>t. EnableTrack (trackId t)) (audioTracks s)"

text \<open>
  \<^verbatim>\<open>_gotUserMediaForInvite\<close>. A call that has a successor forwards the stream to
  it; the successor is another object, so the forwarded call is logged. An
  argument that is \<^verbatim>\<open>undefined\<close> is \<open>None\<close>.
\<close>

definition gotUserMediaForInvite :: "call \<Rightarrow> stream option \<Rightarrow> result" where
  "gotUserMediaForInvite self arg =
     (case successor self of
        Some next \<Rightarrow> Inr (self, [SuccessorGotUserMediaForAnswer next arg])
      | None \<Rightarrow>
          if state self = Ended then Inr (self, [])
          else
            (case arg of
               None \<Rightarrow> Inl TypeError
             | Some s \<Rightarrow>
                 let binds = bindLocalVideo self s;
                     self1 = self\<lparr>localAVStream := Some s\<rparr>
                 in (case createPeerConnection self1 of
                       Inl e \<Rightarrow> Inl e
                     | Inr (pc, news) \<Rightarrow>
                         Inr (self1\<lparr>peerConn := Some pc, state := CreateOffer\<rparr>,
                              binds @ enableAudioTracks s @ news
                              @ [AddStream s,
                                 CreateOfferReq (memberOf ''_gotLocalOffer'')
                                                (memberOf ''_getLocalOfferFailed'')]))))"

text \<open>
  \<^verbatim>\<open>_gotUserMediaForAnswer\<close>. The argument is \<open>None\<close> when the caller passes
  \<^verbatim>\<open>undefined\<close>, as \<^verbatim>\<open>_replacedBy\<close> does for a call that holds no stream.
\<close>

definition gotUserMediaForAnswer :: "call \<Rightarrow> stream option \<Rightarrow> result" where
  "gotUserMediaForAnswer self arg =
     (if state self = Ended then Inr (self, [])
      else case arg of
        None \<Rightarrow> Inl TypeError
      | Some s \<Rightarrow>
          (case peerConn self of
             None \<Rightarrow> Inl TypeError
           | Some pc \<Rightarrow>
               Inr (self\<lparr>localAVStream := Some s, state := CreateAnswer\<rparr>,
                    bindLocalVideo self s @ enableAudioTracks s
                    @ [AddStream s, CreateAnswerReq (ctype self = Some Video)])))"

text \<open>The callback of \<^verbatim>\<open>createAnswer\<close>, then the one of its \<^verbatim>\<open>setLocalDescription\<close>.\<close>

definition answerCreated :: "call \<Rightarrow> session_description \<Rightarrow> result" where
  "answerCreated self description =
     (case peerConn self of
        None \<Rightarrow> Inl TypeError
      | Some pc \<Rightarrow> Inr (self, [SetLocalDescription description ThenAnswer]))"

definition answerDescriptionSet :: "call \<Rightarrow> result" where
  "answerDescriptionSet self =
     (case peerConn self of
        None \<Rightarrow> Inl TypeError
      | Some pc \<Rightarrow>
          (case localDescription pc of
             None \<Rightarrow> Inl TypeError
           | Some d \<Rightarrow>
               Inr (self\<lparr>state := Connecting\<rparr>,
                    [sendEvent self ''m.call.answer''
                       (AnswerContent 0 (callId self) \<lparr>sdp = sdp d, sdtype = sdtype d\<rparr>)])))"

subsection \<open>The outbound offer\<close>

text \<open>
  \<^verbatim>\<open>_gotLocalOffer\<close>. The browser's \<^verbatim>\<open>setLocalDescription\<close> throws when it is given
  no description.
\<close>

definition gotLocalOffer :: "call \<Rightarrow> session_description option \<Rightarrow> result" where
  "gotLocalOffer self arg =
     (if state self = Ended then Inr (self, [])
      else case peerConn self of
        None \<Rightarrow> Inl TypeError
      | Some pc \<Rightarrow>
          (case arg of
             None \<Rightarrow> Inl TypeError
           | Some description \<Rightarrow> Inr (self, [SetLocalDescription description ThenInvite])))"

text \<open>
  The success callback of \<^verbatim>\<open>setLocalDescription\<close> in \<^verbatim>\<open>_gotLocalOffer\<close>: publish the
  invite, arm the timer, enter \<^verbatim>\<open>invite_sent\<close>.
\<close>

definition offerDescriptionSet :: "call \<Rightarrow> result" where
  "offerDescriptionSet self =
     (case peerConn self of
        None \<Rightarrow> Inl TypeError
      | Some pc \<Rightarrow>
          (case localDescription pc of
             None \<Rightarrow> Inl TypeError
           | Some d \<Rightarrow>
               Inr (self\<lparr>state := InviteSent\<rparr>,
                    [sendEvent self ''m.call.invite''
                       (InviteContent 0 (callId self) \<lparr>sdp = sdp d, sdtype = sdtype d\<rparr>
                          CALL_TIMEOUT_MS),
                     SetTimeout InviteTimer CALL_TIMEOUT_MS])))"

text \<open>The function the invite timer runs.\<close>

definition inviteTimerFired :: "call \<Rightarrow> outcome" where
  "inviteTimerFired self =
     (if state self = InviteSent
      then hangup self (JStr ''invite_timeout'') Undefined
      else (self, []))"

subsection \<open>The inbound invite\<close>

record invite_event =
  getContent :: invite_content
  getAge :: "int option"

text \<open>\<^verbatim>\<open>s.indexOf(pat)\<close>: the first position where \<open>pat\<close> starts, or \<open>-1\<close>.\<close>

fun startsWith :: "string \<Rightarrow> string \<Rightarrow> bool" where
  "startsWith s [] = True"
| "startsWith [] (p # ps) = False"
| "startsWith (c # cs) (p # ps) = (c = p \<and> startsWith cs ps)"

fun indexFrom :: "string \<Rightarrow> string \<Rightarrow> int \<Rightarrow> int" where
  "indexFrom [] pat i = (if pat = [] then i else - 1)"
| "indexFrom (c # cs) pat i =
     (if startsWith (c # cs) pat then i else indexFrom cs pat (i + 1))"

definition indexOf :: "string \<Rightarrow> string \<Rightarrow> int" where
  "indexOf s pat = indexFrom s pat 0"

text \<open>
  \<^verbatim>\<open>_initWithInvite\<close>. The guard \<^verbatim>\<open>if (event.getAge())\<close> is false for a missing age
  and for the number 0.
\<close>

definition initWithInvite :: "call \<Rightarrow> invite_event \<Rightarrow> result" where
  "initWithInvite self event =
     (let m = getContent event;
          self1 = self\<lparr>msg := Some m\<rparr>
      in case createPeerConnection self1 of
           Inl e \<Rightarrow> Inl e
         | Inr (pc, news) \<Rightarrow>
             let self2 = self1\<lparr>peerConn := Some pc, state := Ringing,
                               direction := Some Inbound,
                               ctype := (if indexOf (sdp (offer m)) ''m=video'' > - 1
                                         then Some Video else Some Voice)\<rparr>
             in Inr (self2,
                     news
                     @ [SetRemoteDescription (offer m)
                          (memberOf ''_onSetRemoteDescriptionSuccess'')
                          (memberOf ''_onSetRemoteDescriptionError'')]
                     @ (case getAge event of
                          None \<Rightarrow> []
                        | Some age \<Rightarrow>
                            if age \<noteq> 0
                            then [SetTimeout RingingTimer (lifetime m - age)]
                            else [])))"

text \<open>The function the ringing timer runs.\<close>

definition ringingTimerFired :: "call \<Rightarrow> result" where
  "ringingTimerFired self =
     (if state self = Ringing
      then
        let self1 = self\<lparr>state := Ended, hangupParty := Some Remote\<rparr>
        in case peerConn self1 of
             None \<Rightarrow> Inl TypeError
           | Some pc \<Rightarrow>
               Inr (self1,
                    stopAllMedia self1
                    @ (if signalingState pc \<noteq> ''closed'' then [ClosePeerConn] else [])
                    @ [Emit OnHangup])
      else Inr (self, []))"

subsection \<open>Answering\<close>

text \<open>
  \<^verbatim>\<open>answer\<close>. The failure callback is looked up under the name the source
  writes there, \<^verbatim>\<open>getUserMediaFailed\<close>.
\<close>

definition answer :: "call \<Rightarrow> result" where
  "answer self =
     (if localAVStream self = None \<and> \<not> waitForLocalAVStream self
      then Inr (self\<lparr>state := WaitLocalMedia\<rparr>,
                [GetUserMedia (getUserMediaVideoContraints (ctype self))
                   (memberOf ''_gotUserMediaForAnswer'') (memberOf ''getUserMediaFailed'')])
      else if localAVStream self \<noteq> None
      then gotUserMediaForAnswer self (localAVStream self)
      else if waitForLocalAVStream self
      then Inr (self\<lparr>state := WaitLocalMedia\<rparr>, [])
      else Inr (self, []))"

subsection \<open>Signalling from the remote side\<close>

definition receivedAnswer :: "call \<Rightarrow> session_description \<Rightarrow> result" where
  "receivedAnswer self ans =
     (if state self = Ended then Inr (self, [])
      else case peerConn self of
        None \<Rightarrow> Inl TypeError
      | Some pc \<Rightarrow>
          Inr (self\<lparr>state := Connecting\<rparr>,
               [SetRemoteDescription ans
                  (memberOf ''_onSetRemoteDescriptionSuccess'')
                  (memberOf ''_onSetRemoteDescriptionError'')]))"

definition gotRemoteIceCandidate :: "call \<Rightarrow> candidate \<Rightarrow> result" where
  "gotRemoteIceCandidate self c =
     (if state self = Ended then Inr (self, [])
      else case peerConn self of
        None \<Rightarrow> Inl TypeError
      | Some pc \<Rightarrow> Inr (self, [AddIceCandidate c]))"

subsection \<open>Callbacks of the peer connection and of the remote stream\<close>

definition gotLocalIceCandidate :: "call \<Rightarrow> candidate option \<Rightarrow> outcome" where
  "gotLocalIceCandidate self evc =
     (case evc of
        None \<Rightarrow> (self, [])
      | Some ec \<Rightarrow>
          sendCandidate self
            \<lparr>cand = cand ec, sdpMid = sdpMid ec, sdpMLineIndex = sdpMLineIndex ec\<rparr>)"

definition onIceConnectionStateChanged :: "call \<Rightarrow> result" where
  "onIceConnectionStateChanged self =
     (if state self = Ended then Inr (self, [])
      else case peerConn self of
        None \<Rightarrow> Inl TypeError
      | Some pc \<Rightarrow>
          if iceConnectionState pc = ''completed'' \<or> iceConnectionState pc = ''connected''
          then Inr (self\<lparr>state := Connected, didConnect := True\<rparr>, [])
          else if iceConnectionState pc = ''failed''
          then Inr (hangup self (JStr ''ice_failed'') Undefined)
          else Inr (self, []))"

definition onSignallingStateChanged :: "call \<Rightarrow> result" where
  "onSignallingStateChanged self =
     (case peerConn self of None \<Rightarrow> Inl TypeError | Some pc \<Rightarrow> Inr (self, []))"

definition onSetRemoteDescriptionSuccess :: "call \<Rightarrow> outcome" where
  "onSetRemoteDescriptionSuccess self = (self, [])"

definition onSetRemoteDescriptionError :: "call \<Rightarrow> outcome" where
  "onSetRemoteDescriptionError self = (self, [])"

definition onAddStream :: "call \<Rightarrow> stream \<Rightarrow> outcome" where
  "onAddStream self s =
     (let self1 = self\<lparr>remoteAVStream := Some s\<rparr>;
          self2 = (if direction self1 = Some Inbound
                   then self1\<lparr>ctype := (if length (videoTracks s) > 0
                                          then Some Video else Some Voice)\<rparr>
                   else self1)
      in (self2,
          forAllTracksOnStream s
            (\<lambda>t. [HookTrackStarted (trackId t) (memberOf ''_onRemoteStreamTrackStarted'')])
          @ [HookStreamEnded (streamId s) (memberOf ''_onRemoteStreamEnded''),
             HookStreamStarted (streamId s) (memberOf ''_onRemoteStreamStarted'')]
          @ tryPlayRemoteStream self2))"

definition onRemoteStreamStarted :: "call \<Rightarrow> outcome" where
  "onRemoteStreamStarted self = (self\<lparr>state := Connected\<rparr>, [])"

definition onRemoteStreamTrackStarted :: "call \<Rightarrow> outcome" where
  "onRemoteStreamTrackStarted self = (self\<lparr>state := Connected\<rparr>, [])"

definition onRemoteStreamEnded :: "call \<Rightarrow> result" where
  "onRemoteStreamEnded self =
     (let self1 = self\<lparr>state := Ended, hangupParty := Some Remote\<rparr>
      in case peerConn self1 of
           None \<Rightarrow> Inl TypeError
         | Some pc \<Rightarrow>
             Inr (self1,
                  stopAllMedia self1
                  @ (if signalingState pc \<noteq> ''closed'' then [ClosePeerConn] else [])
                  @ [Emit OnHangup]))"

subsection \<open>Running a hooked callback\<close>

text \<open>
  \<^verbatim>\<open>hookCallback(call, fn)\<close> returns \<^verbatim>\<open>function() { return fn.apply(call, arguments) }\<close>.
  Running it when \<open>fn\<close> is \<^verbatim>\<open>undefined\<close> throws; otherwise the member runs on the
  call with the arguments it was given, a missing one being \<^verbatim>\<open>undefined\<close>.
\<close>

fun hookCallback :: "handler option \<Rightarrow> arg \<Rightarrow> call \<Rightarrow> result" where
  "hookCallback None a self = Inl TypeError"
| "hookCallback (Some GetUserMediaFailed) a self = getUserMediaFailed self"
| "hookCallback (Some GetLocalOfferFailed) a self = getLocalOfferFailed self"
| "hookCallback (Some GotUserMediaForInvite) (StreamArg s) self =
     gotUserMediaForInvite self (Some s)"
| "hookCallback (Some GotUserMediaForInvite) a self = gotUserMediaForInvite self None"
| "hookCallback (Some GotUserMediaForAnswer) (StreamArg s) self =
     gotUserMediaForAnswer self (Some s)"
| "hookCallback (Some GotUserMediaForAnswer) a self = gotUserMediaForAnswer self None"
| "hookCallback (Some GotLocalOffer) (DescriptionArg d) self = gotLocalOffer self (Some d)"
| "hookCallback (Some GotLocalOffer) a self = gotLocalOffer self None"
| "hookCallback (Some OnSetRemoteDescriptionSuccess) a self =
     Inr (onSetRemoteDescriptionSuccess self)"
| "hookCallback (Some OnSetRemoteDescriptionError) a self =
     Inr (onSetRemoteDescriptionError self)"
| "hookCallback (Some OnIceConnectionStateChanged) a self = onIceConnectionStateChanged self"
| "hookCallback (Some OnSignallingStateChanged) a self = onSignallingStateChanged self"
| "hookCallback (Some GotLocalIceCandidate) (CandidateArg c) self =
     Inr (gotLocalIceCandidate self c)"
| "hookCallback (Some GotLocalIceCandidate) a self = Inl TypeError"
| "hookCallback (Some OnAddStream) (StreamArg s) self = Inr (onAddStream self s)"
| "hookCallback (Some OnAddStream) a self = Inl TypeError"
| "hookCallback (Some OnRemoteStreamStarted) a self = Inr (onRemoteStreamStarted self)"
| "hookCallback (Some OnRemoteStreamEnded) a self = onRemoteStreamEnded self"
| "hookCallback (Some OnRemoteStreamTrackStarted) a self =
     Inr (onRemoteStreamTrackStarted self)"

subsection \<open>Replacement\<close>

text \<open>
  \<^verbatim>\<open>_replacedBy(newCall)\<close> changes both calls; the result holds each with the
  effects issued on its behalf. The call to \<^verbatim>\<open>hangup\<close> is the source's
  \<^verbatim>\<open>this.hangup(true)\<close>: one argument, bound to the first parameter.
\<close>

definition replacedBy :: "call \<Rightarrow> call \<Rightarrow> error + (outcome \<times> outcome)" where
  "replacedBy self newCall =
     (let handed =
            (if state self = WaitLocalMedia
             then Inr (self, (newCall\<lparr>waitForLocalAVStream := True\<rparr>, []))
             else if state self = CreateOffer \<or> state self = InviteSent
             then (case gotUserMediaForAnswer newCall (localAVStream self) of
                     Inl e \<Rightarrow> Inl e
                   | Inr out \<Rightarrow> Inr (self\<lparr>localAVStream := None\<rparr>, out))
             else Inr (self, (newCall, [])))
      in case handed of
           Inl e \<Rightarrow> Inl e
         | Inr (self1, (new1, newEffs)) \<Rightarrow>
             let new2 = new1\<lparr>localVideoElement := localVideoElement self1,
                             remoteVideoElement := remoteVideoElement self1\<rparr>;
                 self2 = self1\<lparr>successor := Some (callId new2)\<rparr>;
                 (self3, effs) = hangup self2 (JBool True) Undefined
             in Inr ((self3, Emit (Replaced (callId new2)) # effs), (new2, newEffs)))"

section \<open>Scenarios\<close>

text \<open>
  The environment's side of the candidate queue: the timer fires, the batch is
  published, and the publish fails, so the failure callback runs with the batch
  the flush drained. The effects are those of the flush followed by those of the
  callback.
\<close>

definition publishFailure :: "call \<Rightarrow> outcome" where
  "publishFailure self =
     (let cands = candidateSendQueue self;
          (self1, published) = sendCandidateQueue self
      in if published = [] then (self1, [])
         else (let (self2, effs) = candidatesFailed self1 cands
               in (self2, published @ effs)))"

fun publishFailures :: "nat \<Rightarrow> call \<Rightarrow> call" where
  "publishFailures 0 self = self"
| "publishFailures (Suc n) self = publishFailures n (fst (publishFailure self))"

text \<open>The delays of the timers of one kind among some effects, in order.\<close>

fun delaysOf :: "timer \<Rightarrow> effect list \<Rightarrow> int list" where
  "delaysOf k [] = []"
| "delaysOf k (SetTimeout k' d # es) = (if k' = k then d # delaysOf k es else delaysOf k es)"
| "delaysOf k (e # es) = delaysOf k es"

text \<open>When each timer in a chain fires, counted from the start of the chain.\<close>

fun firingTimes :: "int \<Rightarrow> int list \<Rightarrow> int list" where
  "firingTimes t [] = []"
| "firingTimes t (d # ds) = (t + d) # firingTimes (t + d) ds"

text \<open>The two states in which a timer waits for the other side.\<close>

definition awaitsRemote :: "call \<Rightarrow> bool" where
  "awaitsRemote self = (state self = InviteSent \<or> state self = Ringing)"

text \<open>Concrete values.\<close>

definition exampleOpts :: opts where
  "exampleOpts = \<lparr>opt_roomId = ''!room:example.org'',
                   opt_webRtc = \<lparr>vendor = Some ''webkit'', isOpenWebRTC = False\<rparr>,
                   opt_turnServers = None\<rparr>"

definition freshCall :: call where
  "freshCall = \<lparr>
     roomId = ''!room:example.org'',
     webRtc = \<lparr>vendor = Some ''webkit'', isOpenWebRTC = False\<rparr>,
     turnServers = [\<lparr>urls = Some [''stun:stun.l.google.com:19302''],
                     username = None, credential = None\<rparr>],
     callId = ''c1446336000000'',
     state = Fledgling,
     didConnect = False,
     candidateSendQueue = [],
     candidateSendTries = 0,
     ctype = None,
     direction = None,
     hangupParty = None,
     hangupReason = Undefined,
     msg = None,
     peerConn = None,
     localAVStream = None,
     remoteAVStream = None,
     waitForLocalAVStream = False,
     localVideoElement = None,
     remoteVideoElement = None,
     successor = None,
     config = None,
     errorListeners = 0 \<rparr>"

definition exampleTurnServers :: "turn_server list" where
  "exampleTurnServers =
     [\<lparr>urls = Some [''turn:turn.example.org:3478?transport=udp'',
                    ''turn:turn.example.org:3478?transport=tcp''],
       username = Some ''1446336000:@alice:example.org'',
       credential = Some ''bm90IGEgc2VjcmV0''\<rparr>]"

definition candA :: candidate where
  "candA = \<lparr>cand = ''candidate:1 1 UDP 2122252543 192.0.2.1 50000 typ host'',
            sdpMid = ''audio'', sdpMLineIndex = 0\<rparr>"

definition candB :: candidate where
  "candB = \<lparr>cand = ''candidate:2 1 UDP 1686052863 198.51.100.7 50001 typ srflx'',
            sdpMid = ''audio'', sdpMLineIndex = 0\<rparr>"

text \<open>The fresh call after its first local candidate.\<close>

definition queuedCall :: call where
  "queuedCall = fst (sendCandidate freshCall candA)"

text \<open>The flush has drained the queue and its publish is in flight.\<close>

definition inFlightCall :: call where
  "inFlightCall = fst (sendCandidateQueue queuedCall)"

text \<open>
  A second candidate arrives while the publish is in flight, then the publish
  fails.
\<close>

definition overtakenCall :: call where
  "overtakenCall = fst (candidatesFailed (fst (sendCandidate inFlightCall candB)) [candA])"

text \<open>An audio capture, a remote audio stream, and a voice offer.\<close>

definition exampleStream :: stream where
  "exampleStream = \<lparr>streamId = 1, videoTracks = [],
                     audioTracks = [\<lparr>trackId = 11, hasStop = True\<rparr>],
                     streamHasStop = True\<rparr>"

definition remoteStream :: stream where
  "remoteStream = \<lparr>streamId = 2, videoTracks = [],
                    audioTracks = [\<lparr>trackId = 21, hasStop = True\<rparr>],
                    streamHasStop = False\<rparr>"

definition exampleOffer :: session_description where
  "exampleOffer = \<lparr>sdp = ''v=0 o=- 1 2 IN IP4 192.0.2.1 s=- t=0 0 m=audio 9 RTP/SAVPF 111'',
                    sdtype = ''offer''\<rparr>"

text \<open>An invite of age 0 and one that is 45 seconds old.\<close>

definition zeroAgeInvite :: invite_event where
  "zeroAgeInvite = \<lparr>getContent = \<lparr>offer = exampleOffer, lifetime = 60000\<rparr>,
                     getAge = Some 0\<rparr>"

definition agedInvite :: invite_event where
  "agedInvite = \<lparr>getContent = \<lparr>offer = exampleOffer, lifetime = 60000\<rparr>,
                  getAge = Some 45000\<rparr>"

text \<open>The host has attached a listener for \<^verbatim>\<open>error\<close> events.\<close>

definition listeningCall :: call where
  "listeningCall = freshCall\<lparr>errorListeners := 1\<rparr>"

text \<open>The peer connection as the browser hands it out.\<close>

definition newPeerConn :: peer_conn where
  "newPeerConn = \<lparr>signalingState = ''stable'', iceConnectionState = ''new'',
                   localDescription = None\<rparr>"

text \<open>
  An outbound voice call up to the published invite: placed, media captured and
  offer requested, local description set by the browser, invite published.
\<close>

definition placedCall :: call where
  "placedCall = listeningCall\<lparr>state := WaitLocalMedia, direction := Some Outbound,
                  config := Some \<lparr>audio = True, video = NoVideo\<rparr>,
                  ctype := Some Voice\<rparr>"

definition offeringCall :: call where
  "offeringCall = placedCall\<lparr>localAVStream := Some exampleStream,
                    peerConn := Some newPeerConn, state := CreateOffer\<rparr>"

definition describedCall :: call where
  "describedCall =
     offeringCall\<lparr>peerConn := Some (newPeerConn\<lparr>localDescription := Some exampleOffer\<rparr>)\<rparr>"

definition invitingCall :: call where
  "invitingCall = describedCall\<lparr>state := InviteSent\<rparr>"

text \<open>An inbound voice call: constructed a little later, then given the invite.\<close>

definition secondCall :: call where
  "secondCall = freshCall\<lparr>callId := ''c1446336000555''\<rparr>"

definition incomingCall :: call where
  "incomingCall = secondCall\<lparr>msg := Some \<lparr>offer = exampleOffer, lifetime = 60000\<rparr>,
                    peerConn := Some newPeerConn, state := Ringing,
                    direction := Some Inbound, ctype := Some Voice\<rparr>"

text \<open>The inbound call gets the remote stream, then the remote side hangs up.\<close>

definition streamingCall :: call where
  "streamingCall = incomingCall\<lparr>remoteAVStream := Some remoteStream\<rparr>"

definition hungUpCall :: call where
  "hungUpCall = streamingCall\<lparr>state := Ended, hangupParty := Some Remote,
                  hangupReason := JStr ''user_hangup''\<rparr>"

section \<open>Properties\<close>

subsection \<open>Helper facts\<close>

lemma MatrixCall_exampleOpts: "MatrixCall exampleOpts ''1446336000000'' = Inr freshCall"
  by (simp add: MatrixCall_def exampleOpts_def freshCall_def turnServers_or_fallback_def
      checkObjectHasKeys_def FALLBACK_STUN_SERVER_def)

lemma push_each_append: "push_each q cs = q @ cs"
  by (induction cs arbitrary: q) auto

lemma queuedCall_eq: "queuedCall = freshCall\<lparr>candidateSendQueue := [candA]\<rparr>"
  by (simp add: queuedCall_def sendCandidate_def freshCall_def)

lemma queuedCall_fields:
  "candidateSendQueue queuedCall = [candA]" "candidateSendTries queuedCall = 0"
  "roomId queuedCall = ''!room:example.org''" "callId queuedCall = ''c1446336000000''"
  by (simp_all add: queuedCall_eq freshCall_def)

lemma publishFailure_retry:
  assumes "candidateSendQueue self \<noteq> []" and "candidateSendTries self < 5"
  shows "publishFailure self =
           (self\<lparr>candidateSendTries := candidateSendTries self + 2\<rparr>,
            [SendEvent (roomId self) ''m.call.candidates''
               (CandidatesContent 0 (callId self) (candidateSendQueue self)),
             SetTimeout CandidateQueueTimer (500 * 2 ^ (candidateSendTries self + 1))])"
  using assms
  by (simp add: publishFailure_def sendCandidateQueue_def candidatesFailed_def
      sendEvent_def push_each_append Let_def)

lemma publishFailure_giveup:
  assumes "candidateSendQueue self \<noteq> []" and "5 \<le> candidateSendTries self"
  shows "publishFailure self =
           (self\<lparr>candidateSendTries := 0\<rparr>,
            [SendEvent (roomId self) ''m.call.candidates''
               (CandidatesContent 0 (callId self) (candidateSendQueue self))])"
  using assms
  by (simp add: publishFailure_def sendCandidateQueue_def candidatesFailed_def
      sendEvent_def push_each_append Let_def)

lemma publishFailures_from_zero:
  assumes "candidateSendQueue self \<noteq> []" and "candidateSendTries self = 0"
  shows "publishFailures 1 self = self\<lparr>candidateSendTries := 2\<rparr>"
    and "publishFailures 2 self = self\<lparr>candidateSendTries := 4\<rparr>"
    and "publishFailures 3 self = self\<lparr>candidateSendTries := 6\<rparr>"
    and "publishFailures 4 self = self"
    and "publishFailures 5 self = self\<lparr>candidateSendTries := 2\<rparr>"
  using assms
  by (simp_all add: numeral_eq_Suc publishFailure_retry publishFailure_giveup)

lemma inFlightCall_eq:
  "inFlightCall = freshCall\<lparr>candidateSendQueue := [], candidateSendTries := 1\<rparr>"
  by (simp add: inFlightCall_def sendCandidateQueue_def queuedCall_eq freshCall_def Let_def)

subsection \<open>Construction\<close>

text \<open>
  C3, as the code has it. When the caller supplies no TURN server list the
  constructor succeeds and the list is the single fallback STUN entry. A list the
  caller supplies is kept as it is, so an empty list stays empty.
\<close>

theorem turn_servers_after_construction:
  "(opt_turnServers opts = None \<longrightarrow>
      map_sum id turnServers (MatrixCall opts stamp) =
        Inr [\<lparr>urls = Some [''stun:stun.l.google.com:19302''],
              username = None, credential = None\<rparr>])
   \<and> (\<forall>servers c. opt_turnServers opts = Some servers \<and> MatrixCall opts stamp = Inr c
         \<longrightarrow> turnServers c = servers)"
  by (auto simp add: MatrixCall_def turnServers_or_fallback_def checkObjectHasKeys_def
      FALLBACK_STUN_SERVER_def Let_def split: sum.splits)

theorem turn_servers_after_construction_witness:
  "opt_turnServers exampleOpts = None
   \<and> map_sum id turnServers (MatrixCall exampleOpts ''1446336000000'') =
       Inr [\<lparr>urls = Some [''stun:stun.l.google.com:19302''],
             username = None, credential = None\<rparr>]
   \<and> opt_turnServers (exampleOpts\<lparr>opt_turnServers := Some exampleTurnServers\<rparr>)
       = Some exampleTurnServers
   \<and> MatrixCall (exampleOpts\<lparr>opt_turnServers := Some exampleTurnServers\<rparr>)
       ''1446336000000'' = Inr (freshCall\<lparr>turnServers := exampleTurnServers\<rparr>)
   \<and> turnServers (freshCall\<lparr>turnServers := exampleTurnServers\<rparr>) = exampleTurnServers"
  using turn_servers_after_construction [of exampleOpts "''1446336000000''"]
    turn_servers_after_construction
      [of "exampleOpts\<lparr>opt_turnServers := Some exampleTurnServers\<rparr>" "''1446336000000''"]
  by (simp add: MatrixCall_def exampleOpts_def freshCall_def turnServers_or_fallback_def
      checkObjectHasKeys_def exampleTurnServers_def)

text \<open>
  C3 as stated fails: constructed with an empty list of TURN servers, the call
  has an empty list.
\<close>

theorem empty_turn_servers_stay_empty:
  "map_sum id turnServers
     (MatrixCall (exampleOpts\<lparr>opt_turnServers := Some []\<rparr>) ''1446336000000'') = Inr []"
  by (simp add: MatrixCall_def turnServers_or_fallback_def exampleOpts_def)

subsection \<open>The candidate queue\<close>

text \<open>
  C10. A flush that finds the candidate queue empty returns the call as it was
  and asks for nothing: no event is published, the try counter keeps its value
  and no timer is armed. Hence every candidates event a flush publishes carries
  at least one candidate.
\<close>

theorem empty_flush_is_noop:
  "(candidateSendQueue self = [] \<longrightarrow> sendCandidateQueue self = (self, []))
   \<and> (\<forall>r t v i cs.
         SendEvent r t (CandidatesContent v i cs) \<in> set (snd (sendCandidateQueue self))
         \<longrightarrow> cs \<noteq> [])"
  by (auto simp: sendCandidateQueue_def sendEvent_def Let_def split: if_splits)

theorem empty_flush_is_noop_witness:
  "candidateSendQueue freshCall = []
   \<and> sendCandidateQueue freshCall = (freshCall, [])
   \<and> SendEvent ''!room:example.org'' ''m.call.candidates''
        (CandidatesContent 0 ''c1446336000000'' [candA])
       \<in> set (snd (sendCandidateQueue queuedCall))
   \<and> [candA] \<noteq> []"
  using empty_flush_is_noop [of freshCall] empty_flush_is_noop [of queuedCall]
  by (simp add: sendCandidateQueue_def sendEvent_def queuedCall_fields freshCall_def)

text \<open>
  C4, as the code has it. The try counter goes up once at each flush and once
  more at each retry it arms, so a run of failures that starts with the counter
  at 0 and a non-empty queue arms a retry after each of its first three
  failures and gives up at the fourth: that failure arms no timer, the counter
  is back at 0, the queue holds the candidates it held at the start, and the
  next local candidate arms a fresh 100 ms flush.
\<close>

theorem pump_gives_up_at_fourth_failure:
  assumes "candidateSendQueue self \<noteq> []" and "candidateSendTries self = 0"
  shows "(\<forall>k<3. delaysOf CandidateQueueTimer (snd (publishFailure (publishFailures k self))) \<noteq> [])
    \<and> snd (publishFailure (publishFailures 3 self)) =
        [SendEvent (roomId self) ''m.call.candidates''
           (CandidatesContent 0 (callId self) (candidateSendQueue self))]
    \<and> candidateSendTries (publishFailures 4 self) = 0
    \<and> candidateSendQueue (publishFailures 4 self) = candidateSendQueue self
    \<and> (\<forall>c. sendCandidate (publishFailures 4 self) c =
          (self\<lparr>candidateSendQueue := candidateSendQueue self @ [c]\<rparr>,
           [SetTimeout CandidateQueueTimer 100]))"
proof -
  note run = publishFailures_from_zero [OF assms]
  have first: "\<forall>k<3. delaysOf CandidateQueueTimer (snd (publishFailure (publishFailures k self))) \<noteq> []"
  proof (intro allI impI)
    fix k :: nat
    assume "k < 3"
    then consider "k = 0" | "k = 1" | "k = 2" by linarith
    then show "delaysOf CandidateQueueTimer (snd (publishFailure (publishFailures k self))) \<noteq> []"
      using assms by cases (simp_all add: run publishFailure_retry)
  qed
  have fourth: "snd (publishFailure (publishFailures 3 self)) =
        [SendEvent (roomId self) ''m.call.candidates''
           (CandidatesContent 0 (callId self) (candidateSendQueue self))]"
    using assms by (simp add: run publishFailure_giveup)
  have after: "publishFailures 4 self = self"
    by (rule run)
  have enqueue: "\<forall>c. sendCandidate (publishFailures 4 self) c =
          (self\<lparr>candidateSendQueue := candidateSendQueue self @ [c]\<rparr>,
           [SetTimeout CandidateQueueTimer 100])"
    using assms by (simp add: after sendCandidate_def)
  show ?thesis
    using first fourth enqueue assms by (simp add: after)
qed

theorem pump_gives_up_at_fourth_failure_witness:
  "candidateSendQueue queuedCall \<noteq> [] \<and> candidateSendTries queuedCall = 0
   \<and> delaysOf CandidateQueueTimer (snd (publishFailure (publishFailures 2 queuedCall))) \<noteq> []
   \<and> snd (publishFailure (publishFailures 3 queuedCall)) =
        [SendEvent ''!room:example.org'' ''m.call.candidates''
           (CandidatesContent 0 ''c1446336000000'' [candA])]
   \<and> candidateSendTries (publishFailures 4 queuedCall) = 0
   \<and> candidateSendQueue (publishFailures 4 queuedCall) = [candA]
   \<and> snd (sendCandidate (publishFailures 4 queuedCall) candB) =
        [SetTimeout CandidateQueueTimer 100]"
  using pump_gives_up_at_fourth_failure [of queuedCall]
  by (simp add: queuedCall_fields)

text \<open>
  C4 as stated fails. The run ends at the fourth failure, which arms no retry
  and resets the counter. A fifth failed publish belongs to a new run: it arms
  a retry of its own and leaves the counter at 2, and a candidate enqueued then
  arms no flush.
\<close>

theorem pump_has_given_up_before_a_fifth_failure:
  "delaysOf CandidateQueueTimer (snd (publishFailure (publishFailures 3 queuedCall))) = []
   \<and> candidateSendTries (publishFailures 4 queuedCall) = 0
   \<and> candidateSendTries (publishFailures 5 queuedCall) = 2
   \<and> delaysOf CandidateQueueTimer (snd (publishFailure (publishFailures 4 queuedCall))) = [1000]
   \<and> snd (sendCandidate (publishFailures 5 queuedCall) candB) = []"
  by (simp add: publishFailures_from_zero queuedCall_fields publishFailure_giveup
      publishFailure_retry sendCandidate_def)

text \<open>
  C5, as the code has it. The delay is computed from the counter after the
  flush has raised it, and the counter is raised again when the retry is armed.
  After failure number k + 1, for k below 3, the delay is 500 * 2 ^ (2 * k + 1):
  1000, 4000 and 16000 ms; the fourth failure arms no retry. With each publish
  failing as soon as it is made, the retries fire 1000, 5000 and 21000 ms after
  the first failure.
\<close>

theorem retry_delays_of_a_failure_run:
  assumes "candidateSendQueue self \<noteq> []" and "candidateSendTries self = 0"
  shows "(\<forall>k<3. delaysOf CandidateQueueTimer (snd (publishFailure (publishFailures k self)))
                  = [500 * 2 ^ (2 * k + 1)])
    \<and> map (\<lambda>k. delaysOf CandidateQueueTimer (snd (publishFailure (publishFailures k self)))) [0, 1, 2, 3]
        = [[1000], [4000], [16000], []]
    \<and> firingTimes 0
        (concat (map (\<lambda>k. delaysOf CandidateQueueTimer (snd (publishFailure (publishFailures k self))))
                   [0, 1, 2]))
        = [1000, 5000, 21000]"
proof -
  note run = publishFailures_from_zero [OF assms]
  have d0: "delaysOf CandidateQueueTimer (snd (publishFailure (publishFailures 0 self))) = [1000]"
    using assms by (simp add: publishFailure_retry)
  have d1: "delaysOf CandidateQueueTimer (snd (publishFailure (publishFailures 1 self))) = [4000]"
    using assms by (simp add: run publishFailure_retry)
  have d2: "delaysOf CandidateQueueTimer (snd (publishFailure (publishFailures 2 self))) = [16000]"
    using assms by (simp add: run publishFailure_retry)
  have d3: "delaysOf CandidateQueueTimer (snd (publishFailure (publishFailures 3 self))) = []"
    using assms by (simp add: run publishFailure_giveup)
  have each: "\<forall>k<3. delaysOf CandidateQueueTimer (snd (publishFailure (publishFailures k self)))
                  = [500 * 2 ^ (2 * k + 1)]"
  proof (intro allI impI)
    fix k :: nat
    assume "k < 3"
    then consider "k = 0" | "k = 1" | "k = 2" by linarith
    then show "delaysOf CandidateQueueTimer (snd (publishFailure (publishFailures k self)))
                  = [500 * 2 ^ (2 * k + 1)]"
      using d0 d1 d2 by cases simp_all
  qed
  show ?thesis
    using each d0 d1 d2 d3 by simp
qed

theorem retry_delays_of_a_failure_run_witness:
  "candidateSendQueue queuedCall \<noteq> [] \<and> candidateSendTries queuedCall = 0
   \<and> (2::nat) < 3
   \<and> delaysOf CandidateQueueTimer (snd (publishFailure (publishFailures 2 queuedCall))) = [16000]
   \<and> map (\<lambda>k. delaysOf CandidateQueueTimer (snd (publishFailure (publishFailures k queuedCall)))) [0, 1, 2, 3]
        = [[1000], [4000], [16000], []]"
  using retry_delays_of_a_failure_run [of queuedCall]
  by (simp add: queuedCall_fields)

text \<open>
  C5 as stated fails at the first failure: the delay is not 500 ms, and the
  retries of three failures in a row are not at 500, 1500 and 3500 ms.
\<close>

theorem first_retry_delay_is_not_500:
  "delaysOf CandidateQueueTimer (snd (publishFailure queuedCall)) \<noteq> [500 * 2 ^ (1 - 1)]
   \<and> firingTimes 0
        (concat (map (\<lambda>k. delaysOf CandidateQueueTimer (snd (publishFailure (publishFailures k queuedCall))))
                   [0, 1, 2]))
      \<noteq> [500, 1500, 3500]"
  by (simp add: publishFailures_from_zero queuedCall_fields publishFailure_retry)

text \<open>
  C6, as the code has it. The failure callback pushes the drained batch onto the
  end of the queue, in its own order, behind whatever was enqueued while the
  publish was in flight. When nothing was enqueued meanwhile, the next flush
  publishes the same batch in the same order.
\<close>

theorem failed_batch_is_requeued_at_the_back:
  "candidateSendQueue (fst (candidatesFailed self cands)) = candidateSendQueue self @ cands
   \<and> (candidateSendQueue self = [] \<and> cands \<noteq> [] \<longrightarrow>
        snd (sendCandidateQueue (fst (candidatesFailed self cands))) =
          [SendEvent (roomId self) ''m.call.candidates''
             (CandidatesContent 0 (callId self) cands)])"
  by (simp add: candidatesFailed_def sendCandidateQueue_def sendEvent_def push_each_append
      Let_def)

theorem failed_batch_is_requeued_at_the_back_witness:
  "candidateSendQueue inFlightCall = [] \<and> [candA] \<noteq> []
   \<and> candidateSendQueue (fst (candidatesFailed inFlightCall [candA])) = [candA]
   \<and> snd (sendCandidateQueue (fst (candidatesFailed inFlightCall [candA]))) =
          [SendEvent ''!room:example.org'' ''m.call.candidates''
             (CandidatesContent 0 ''c1446336000000'' [candA])]"
  using failed_batch_is_requeued_at_the_back [of inFlightCall "[candA]"]
  by (simp add: inFlightCall_eq freshCall_def)

text \<open>
  C6 as stated fails. Candidate A is emitted and its batch is in flight when
  candidate B is emitted; the publish fails, the queue is B, A, and the next
  batch carries them in that order.
\<close>

theorem later_candidate_overtakes_failed_batch:
  "snd (sendCandidate freshCall candA) = [SetTimeout CandidateQueueTimer 100]
   \<and> snd (sendCandidateQueue queuedCall) =
       [SendEvent ''!room:example.org'' ''m.call.candidates''
          (CandidatesContent 0 ''c1446336000000'' [candA])]
   \<and> candidateSendQueue (fst (sendCandidate inFlightCall candB)) = [candB]
   \<and> candidateSendQueue overtakenCall = [candB, candA]
   \<and> candidateSendQueue overtakenCall \<noteq> [candA, candB]
   \<and> snd (sendCandidateQueue overtakenCall) =
       [SendEvent ''!room:example.org'' ''m.call.candidates''
          (CandidatesContent 0 ''c1446336000000'' [candB, candA])]"
  by (simp add: overtakenCall_def inFlightCall_eq freshCall_def queuedCall_fields
      sendCandidate_def sendCandidateQueue_def candidatesFailed_def sendEvent_def
      candA_def candB_def Let_def)

subsection \<open>The example calls\<close>

lemmas exampleCalls =
  listeningCall_def newPeerConn_def placedCall_def offeringCall_def describedCall_def
  invitingCall_def secondCall_def incomingCall_def streamingCall_def hungUpCall_def
  freshCall_def

text \<open>The outbound call is what the methods make of the fresh call.\<close>

lemma placeVoiceCall_listeningCall:
  "placeVoiceCall listeningCall =
     Inr (placedCall,
          [RegisterCall ''c1446336000000'',
           GetUserMedia (Some \<lparr>audio = True, video = NoVideo\<rparr>)
             (Some GotUserMediaForInvite) (Some GetUserMediaFailed)])"
  by (simp add: placeVoiceCall_def checkForErrorListener_def placeCallWithConstraints_def
      memberOf_def prototype_def exampleCalls)

lemma gotUserMediaForInvite_placedCall:
  "gotUserMediaForInvite placedCall (Some exampleStream) =
     Inr (offeringCall,
          [EnableTrack 11,
           NewPeerConnection (AsConfigured (turnServers freshCall)) pcHooks,
           AddStream exampleStream,
           CreateOfferReq (Some GotLocalOffer) (Some GetLocalOfferFailed)])"
  by (simp add: gotUserMediaForInvite_def createPeerConnection_def bindLocalVideo_def
      enableAudioTracks_def memberOf_def prototype_def exampleStream_def exampleCalls
      Let_def)

lemma gotLocalOffer_offeringCall:
  "gotLocalOffer offeringCall (Some exampleOffer) =
     Inr (offeringCall, [SetLocalDescription exampleOffer ThenInvite])"
  by (simp add: gotLocalOffer_def exampleCalls)

lemma offerDescriptionSet_describedCall:
  "offerDescriptionSet describedCall =
     Inr (invitingCall,
          [SendEvent ''!room:example.org'' ''m.call.invite''
             (InviteContent 0 ''c1446336000000'' exampleOffer 60000),
           SetTimeout InviteTimer 60000])"
  by (simp add: offerDescriptionSet_def sendEvent_def CALL_TIMEOUT_MS_def exampleOffer_def
      exampleCalls)

text \<open>The inbound call is what the invite makes of a fresh call.\<close>

lemma initWithInvite_aged:
  "initWithInvite secondCall agedInvite =
     Inr (incomingCall,
          [NewPeerConnection (AsConfigured (turnServers freshCall)) pcHooks,
           SetRemoteDescription exampleOffer (Some OnSetRemoteDescriptionSuccess)
             (Some OnSetRemoteDescriptionError),
           SetTimeout RingingTimer 15000])"
  by (simp add: initWithInvite_def createPeerConnection_def agedInvite_def Let_def
      indexOf_def exampleOffer_def memberOf_def prototype_def exampleCalls)

lemma onAddStream_incomingCall:
  "onAddStream incomingCall remoteStream =
     (streamingCall,
      [HookTrackStarted 21 (Some OnRemoteStreamTrackStarted),
       HookStreamEnded 2 (Some OnRemoteStreamEnded),
       HookStreamStarted 2 (Some OnRemoteStreamStarted)])"
  by (simp add: onAddStream_def forAllTracksOnStream_def tryPlayRemoteStream_def
      memberOf_def prototype_def remoteStream_def exampleCalls Let_def)

lemma onHangupReceived_streamingCall:
  "onHangupReceived streamingCall (JStr ''user_hangup'') =
     (hungUpCall, [StopTrack 21, ClosePeerConn, Emit OnHangup])"
  by (simp add: onHangupReceived_def terminate_def stopAllMedia_def pauseElement_def
      forAllTracksOnStream_def stopTrack_def remoteStream_def exampleCalls Let_def)

subsection \<open>A waiting call has its peer connection\<close>

text \<open>
  The states \<^verbatim>\<open>invite_sent\<close> and \<^verbatim>\<open>ringing\<close> are entered only by code that has just
  read or created the peer connection, and nothing ever removes it. So the
  property that a call in one of these states has a peer connection holds for a
  new call and is kept by every method, callback and timer.
\<close>

lemma new_call_is_not_waiting: "MatrixCall opts stamp = Inr c \<Longrightarrow> \<not> awaitsRemote c"
  by (auto simp: MatrixCall_def awaitsRemote_def Let_def split: sum.splits)

lemma hangup_state: "state (fst (hangup self r s)) = Ended"
  by (simp add: hangup_def terminate_def Let_def split: prod.splits)

lemma terminate_state: "state (fst (terminate self p r e)) = Ended"
  by (simp add: terminate_def Let_def)

lemma hooked_callbacks_keep_waiting_call_with_peer_connection:
  assumes "hookCallback h a self = Inr (after, effs)"
    and "awaitsRemote self \<longrightarrow> peerConn self \<noteq> None"
  shows "awaitsRemote after \<longrightarrow> peerConn after \<noteq> None"
proof (cases h)
  case None
  with assms show ?thesis by simp
next
  case (Some m)
  show ?thesis
  proof (cases m)
    case GotUserMediaForInvite
    with Some assms show ?thesis
      by (cases a) (auto simp: awaitsRemote_def gotUserMediaForInvite_def Let_def
          split: option.splits if_splits sum.splits)
  next
    case GotUserMediaForAnswer
    with Some assms show ?thesis
      by (cases a) (auto simp: awaitsRemote_def gotUserMediaForAnswer_def split: option.splits if_splits)
  next
    case GetUserMediaFailed
    with Some assms show ?thesis
      using hangup_state [of self Undefined Undefined]
      by (auto simp: awaitsRemote_def getUserMediaFailed_def emitError_def
          split: prod.splits if_splits)
  next
    case GotLocalOffer
    with Some assms show ?thesis
      by (cases a) (auto simp: awaitsRemote_def gotLocalOffer_def split: option.splits if_splits)
  next
    case GetLocalOfferFailed
    with Some assms show ?thesis
      by (auto simp: getLocalOfferFailed_def emitError_def split: if_splits)
  next
    case OnSetRemoteDescriptionSuccess
    with Some assms show ?thesis by (auto simp: awaitsRemote_def onSetRemoteDescriptionSuccess_def)
  next
    case OnSetRemoteDescriptionError
    with Some assms show ?thesis by (auto simp: awaitsRemote_def onSetRemoteDescriptionError_def)
  next
    case OnIceConnectionStateChanged
    with Some assms show ?thesis
      using hangup_state [of self "JStr ''ice_failed''" Undefined]
      by (auto simp: awaitsRemote_def onIceConnectionStateChanged_def split: option.splits if_splits)
  next
    case OnSignallingStateChanged
    with Some assms show ?thesis
      by (auto simp: awaitsRemote_def onSignallingStateChanged_def split: option.splits)
  next
    case GotLocalIceCandidate
    with Some assms show ?thesis
      by (cases a) (auto simp: awaitsRemote_def gotLocalIceCandidate_def sendCandidate_def Let_def
          split: option.splits if_splits)
  next
    case OnAddStream
    with Some assms show ?thesis
      by (cases a) (auto simp: awaitsRemote_def onAddStream_def Let_def split: if_splits)
  next
    case OnRemoteStreamStarted
    with Some assms show ?thesis by (auto simp: awaitsRemote_def onRemoteStreamStarted_def)
  next
    case OnRemoteStreamEnded
    with Some assms show ?thesis
      by (auto simp: awaitsRemote_def onRemoteStreamEnded_def Let_def split: option.splits)
  next
    case OnRemoteStreamTrackStarted
    with Some assms show ?thesis by (auto simp: awaitsRemote_def onRemoteStreamTrackStarted_def)
  qed
qed

lemma other_steps_keep_waiting_call_with_peer_connection:
  assumes "awaitsRemote self \<longrightarrow> peerConn self \<noteq> None"
  shows "receivedAnswer self ans = Inr (after, effs) \<Longrightarrow>
           awaitsRemote after \<longrightarrow> peerConn after \<noteq> None"
    and "gotRemoteIceCandidate self c = Inr (after, effs) \<Longrightarrow>
           awaitsRemote after \<longrightarrow> peerConn after \<noteq> None"
    and "answer self = Inr (after, effs) \<Longrightarrow>
           awaitsRemote after \<longrightarrow> peerConn after \<noteq> None"
    and "answerCreated self d = Inr (after, effs) \<Longrightarrow>
           awaitsRemote after \<longrightarrow> peerConn after \<noteq> None"
    and "answerDescriptionSet self = Inr (after, effs) \<Longrightarrow>
           awaitsRemote after \<longrightarrow> peerConn after \<noteq> None"
    and "offerDescriptionSet self = Inr (after, effs) \<Longrightarrow>
           awaitsRemote after \<longrightarrow> peerConn after \<noteq> None"
    and "initWithInvite self ev = Inr (after, effs) \<Longrightarrow>
           awaitsRemote after \<longrightarrow> peerConn after \<noteq> None"
    and "ringingTimerFired self = Inr (after, effs) \<Longrightarrow>
           awaitsRemote after \<longrightarrow> peerConn after \<noteq> None"
    and "playLocalFired self = Inr (after, effs) \<Longrightarrow>
           awaitsRemote after \<longrightarrow> peerConn after \<noteq> None"
    and "playRemoteFired self = Inr (after, effs) \<Longrightarrow>
           awaitsRemote after \<longrightarrow> peerConn after \<noteq> None"
    and "placeVoiceCall self = Inr (after, effs) \<Longrightarrow>
           awaitsRemote after \<longrightarrow> peerConn after \<noteq> None"
    and "placeVideoCall self l r = Inr (after, effs) \<Longrightarrow>
           awaitsRemote after \<longrightarrow> peerConn after \<noteq> None"
    and "awaitsRemote (fst (inviteTimerFired self)) \<longrightarrow>
           peerConn (fst (inviteTimerFired self)) \<noteq> None"
    and "\<not> awaitsRemote (fst (onHangupReceived self reason))"
    and "\<not> awaitsRemote (fst (onAnsweredElsewhere self))"
    and "\<not> awaitsRemote (fst (hangup self reason suppress))"
    and "awaitsRemote (fst (sendCandidateQueue self)) \<longrightarrow>
           peerConn (fst (sendCandidateQueue self)) \<noteq> None"
    and "awaitsRemote (fst (candidatesSent self)) \<longrightarrow>
           peerConn (fst (candidatesSent self)) \<noteq> None"
    and "awaitsRemote (fst (candidatesFailed self cs)) \<longrightarrow>
           peerConn (fst (candidatesFailed self cs)) \<noteq> None"
  using assms
  by (auto simp: awaitsRemote_def receivedAnswer_def gotRemoteIceCandidate_def answer_def
      gotUserMediaForAnswer_def answerCreated_def answerDescriptionSet_def
      offerDescriptionSet_def initWithInvite_def ringingTimerFired_def playLocalFired_def
      playRemoteFired_def placeVoiceCall_def placeVideoCall_def
      placeCallWithConstraints_def inviteTimerFired_def onHangupReceived_def
      onAnsweredElsewhere_def hangup_state terminate_state sendCandidateQueue_def
      candidatesSent_def candidatesFailed_def Let_def
      split: option.splits if_splits sum.splits prod.splits)

lemma replacedBy_keeps_waiting_call_with_peer_connection:
  assumes "replacedBy self newCall = Inr ((old, oldEffs), (new, newEffs))"
    and "awaitsRemote newCall \<longrightarrow> peerConn newCall \<noteq> None"
  shows "state old = Ended" and "awaitsRemote new \<longrightarrow> peerConn new \<noteq> None"
  using assms
  by (auto simp: awaitsRemote_def replacedBy_def gotUserMediaForAnswer_def hangup_def terminate_def Let_def
      split: if_splits sum.splits prod.splits option.splits)

subsection \<open>The invite timer\<close>

lemma terminate_local:
  assumes "peerConn self = Some pc"
  shows "terminate self Local reason True =
           (self\<lparr>state := Ended, hangupParty := Some Local, hangupReason := reason\<rparr>,
            pauseElement (remoteVideoElement self) @ pauseElement (localVideoElement self)
            @ stopAllMedia self @ [ClosePeerConn, Emit OnHangup])"
  using assms by (simp add: terminate_def stopAllMedia_def Let_def)

lemma stopAllMedia_no_emit: "Emit e \<notin> set (stopAllMedia self)"
  by (auto simp: stopAllMedia_def forAllTracksOnStream_def stopTrack_def
      split: option.splits if_splits)

lemma stopAllMedia_no_close: "ClosePeerConn \<notin> set (stopAllMedia self)"
  by (auto simp: stopAllMedia_def forAllTracksOnStream_def stopTrack_def
      split: option.splits if_splits)

lemma pauseElement_no_emit: "Emit e \<notin> set (pauseElement el)"
  by (auto simp: pauseElement_def split: option.splits)

lemma pauseElement_no_close: "ClosePeerConn \<notin> set (pauseElement el)"
  by (auto simp: pauseElement_def split: option.splits)

lemma count_list_zero: "x \<notin> set xs \<Longrightarrow> count_list xs x = 0"
  by (induction xs) auto

lemma inviteTimerFired_invite_sent:
  assumes "state self = InviteSent" and "peerConn self = Some pc"
  shows "inviteTimerFired self =
           (self\<lparr>state := Ended, hangupParty := Some Local,
                  hangupReason := JStr ''invite_timeout''\<rparr>,
            pauseElement (remoteVideoElement self) @ pauseElement (localVideoElement self)
            @ stopAllMedia self
            @ [ClosePeerConn, Emit OnHangup,
               SendEvent (roomId self) ''m.call.hangup''
                 (HangupContent 0 (callId self) (JStr ''invite_timeout''))])"
  using assms by (simp add: inviteTimerFired_def hangup_def terminate_local sendEvent_def)

text \<open>
  C9. When the success callback of the offer's local description returns, the
  invite has been published with lifetime 60000, a timer of 60000 ms is armed and
  the call is in \<^verbatim>\<open>invite_sent\<close> with its peer connection. A call that is in
  \<^verbatim>\<open>invite_sent\<close> with a peer connection when the timer runs ends with party
  local and reason \<^verbatim>\<open>invite_timeout\<close>: the hangup event is emitted once, the peer
  connection is closed once and the hangup is published. In any other state the
  timer does nothing.
\<close>

theorem invite_timeout_hangs_up:
  assumes "offerDescriptionSet self = Inr (sent, effs)"
  shows "state sent = InviteSent
    \<and> peerConn sent \<noteq> None
    \<and> (\<exists>d. effs = [SendEvent (roomId self) ''m.call.invite''
                      (InviteContent 0 (callId self) d 60000),
                    SetTimeout InviteTimer 60000])
    \<and> (\<forall>later. state later = InviteSent \<and> peerConn later \<noteq> None \<longrightarrow>
          state (fst (inviteTimerFired later)) = Ended
          \<and> hangupParty (fst (inviteTimerFired later)) = Some Local
          \<and> hangupReason (fst (inviteTimerFired later)) = JStr ''invite_timeout''
          \<and> count_list (snd (inviteTimerFired later)) (Emit OnHangup) = 1
          \<and> count_list (snd (inviteTimerFired later)) ClosePeerConn = 1
          \<and> SendEvent (roomId later) ''m.call.hangup''
               (HangupContent 0 (callId later) (JStr ''invite_timeout''))
             \<in> set (snd (inviteTimerFired later)))
    \<and> (\<forall>later. state later \<noteq> InviteSent \<longrightarrow> inviteTimerFired later = (later, []))"
proof -
  have sent: "state sent = InviteSent \<and> peerConn sent \<noteq> None
    \<and> (\<exists>d. effs = [SendEvent (roomId self) ''m.call.invite''
                      (InviteContent 0 (callId self) d 60000),
                    SetTimeout InviteTimer 60000])"
    using assms
    by (auto simp: offerDescriptionSet_def sendEvent_def CALL_TIMEOUT_MS_def
        split: option.splits)
  have expiry: "state (fst (inviteTimerFired later)) = Ended
          \<and> hangupParty (fst (inviteTimerFired later)) = Some Local
          \<and> hangupReason (fst (inviteTimerFired later)) = JStr ''invite_timeout''
          \<and> count_list (snd (inviteTimerFired later)) (Emit OnHangup) = 1
          \<and> count_list (snd (inviteTimerFired later)) ClosePeerConn = 1
          \<and> SendEvent (roomId later) ''m.call.hangup''
               (HangupContent 0 (callId later) (JStr ''invite_timeout''))
             \<in> set (snd (inviteTimerFired later))"
    if "state later = InviteSent" and "peerConn later \<noteq> None" for later
  proof -
    from that obtain pc where pc: "peerConn later = Some pc" by auto
    show ?thesis
      by (simp add: inviteTimerFired_invite_sent [OF that(1) pc] count_list_zero
          stopAllMedia_no_emit stopAllMedia_no_close pauseElement_no_emit
          pauseElement_no_close)
  qed
  have other: "inviteTimerFired later = (later, [])" if "state later \<noteq> InviteSent" for later
    using that by (simp add: inviteTimerFired_def)
  show ?thesis
    using sent expiry other by blast
qed

theorem invite_timeout_hangs_up_witness:
  "offerDescriptionSet describedCall =
     Inr (invitingCall,
          [SendEvent ''!room:example.org'' ''m.call.invite''
             (InviteContent 0 ''c1446336000000'' exampleOffer 60000),
           SetTimeout InviteTimer 60000])
   \<and> state invitingCall = InviteSent \<and> peerConn invitingCall \<noteq> None
   \<and> hangupReason (fst (inviteTimerFired invitingCall)) = JStr ''invite_timeout''
   \<and> count_list (snd (inviteTimerFired invitingCall)) (Emit OnHangup) = 1
   \<and> count_list (snd (inviteTimerFired invitingCall)) ClosePeerConn = 1
   \<and> state freshCall \<noteq> InviteSent \<and> inviteTimerFired freshCall = (freshCall, [])"
proof -
  note pub = offerDescriptionSet_describedCall
  have st: "state invitingCall = InviteSent \<and> peerConn invitingCall \<noteq> None
      \<and> state freshCall \<noteq> InviteSent"
    by (simp add: exampleCalls)
  show ?thesis
    using invite_timeout_hangs_up [OF pub] st pub by blast
qed


subsection \<open>The ringing timer\<close>

lemma delaysOf_append: "delaysOf k (xs @ ys) = delaysOf k xs @ delaysOf k ys"
  by (induction k xs rule: delaysOf.induct) auto

lemma createPeerConnection_no_timer:
  "createPeerConnection self = Inr (pc, news) \<Longrightarrow> delaysOf k news = []"
  by (auto simp: createPeerConnection_def Let_def split: if_splits sum.splits)

text \<open>What stopping the media of a call asks for, track by track.\<close>

lemma stop_every_track:
  "concat (map stopTrack ts) = map (\<lambda>t. StopTrack (trackId t)) (filter hasStop ts)"
  by (induction ts) (simp_all add: stopTrack_def)

lemma forAllTracksOnStream_stopTrack:
  "forAllTracksOnStream s stopTrack =
     map (\<lambda>t. StopTrack (trackId t)) (filter hasStop (videoTracks s @ audioTracks s))"
  by (simp add: forAllTracksOnStream_def stop_every_track)

lemma stopAllMedia_effects:
  "stopAllMedia self =
     (case localAVStream self of
        None \<Rightarrow> []
      | Some s \<Rightarrow>
          map (\<lambda>t. StopTrack (trackId t)) (filter hasStop (videoTracks s @ audioTracks s))
          @ (if streamHasStop s then [StopStream (streamId s)] else []))
     @ (case remoteAVStream self of
          None \<Rightarrow> []
        | Some s \<Rightarrow>
            map (\<lambda>t. StopTrack (trackId t)) (filter hasStop (videoTracks s @ audioTracks s)))"
  by (simp add: stopAllMedia_def forAllTracksOnStream_stopTrack split: option.splits)

text \<open>
  C7, as the code has it. An inbound invite leaves the call ringing with a peer
  connection. When the invite carries an age other than 0, one ringing timer is
  armed, for the lifetime minus the age; when the age is 0 or missing, none is
  armed. A call that is ringing when the timer runs ends with party remote. Its
  media is stopped: every track of the local stream that can be stopped, video
  tracks before audio tracks, then the local stream itself if it can be stopped,
  then every such track of the remote stream. After that the peer connection is
  closed unless its signalling state is already closed, and last the hangup
  event is emitted. In any other state the timer does nothing.
\<close>

theorem ringing_timeout_of_aged_invite:
  assumes "initWithInvite self event = Inr (ringing, effs)"
  shows "state ringing = Ringing
    \<and> peerConn ringing \<noteq> None
    \<and> (\<forall>age. getAge event = Some age \<and> age \<noteq> 0 \<longrightarrow>
          delaysOf RingingTimer effs = [lifetime (getContent event) - age])
    \<and> (getAge event = None \<or> getAge event = Some 0 \<longrightarrow> delaysOf RingingTimer effs = [])
    \<and> (\<forall>later pc. state later = Ringing \<and> peerConn later = Some pc \<longrightarrow>
          ringingTimerFired later =
            Inr (later\<lparr>state := Ended, hangupParty := Some Remote\<rparr>,
                 (case localAVStream later of
                    None \<Rightarrow> []
                  | Some s \<Rightarrow>
                      map (\<lambda>t. StopTrack (trackId t))
                        (filter hasStop (videoTracks s @ audioTracks s))
                      @ (if streamHasStop s then [StopStream (streamId s)] else []))
                 @ (case remoteAVStream later of
                      None \<Rightarrow> []
                    | Some s \<Rightarrow>
                        map (\<lambda>t. StopTrack (trackId t))
                          (filter hasStop (videoTracks s @ audioTracks s)))
                 @ (if signalingState pc \<noteq> ''closed'' then [ClosePeerConn] else [])
                 @ [Emit OnHangup]))
    \<and> (\<forall>later. state later \<noteq> Ringing \<longrightarrow> ringingTimerFired later = Inr (later, []))"
proof -
  from assms obtain pc news where
    pc: "createPeerConnection (self\<lparr>msg := Some (getContent event)\<rparr>) = Inr (pc, news)"
    by (auto simp: initWithInvite_def Let_def split: sum.splits)
  have no_timer: "delaysOf RingingTimer news = []"
    using pc by (rule createPeerConnection_no_timer)
  have ringing: "state ringing = Ringing \<and> peerConn ringing \<noteq> None"
    using assms pc by (auto simp: initWithInvite_def Let_def)
  have effs: "effs = news
      @ [SetRemoteDescription (offer (getContent event))
           (memberOf ''_onSetRemoteDescriptionSuccess'')
           (memberOf ''_onSetRemoteDescriptionError'')]
      @ (case getAge event of
           None \<Rightarrow> []
         | Some age \<Rightarrow>
             if age \<noteq> 0
             then [SetTimeout RingingTimer (lifetime (getContent event) - age)]
             else [])"
    using assms pc by (auto simp: initWithInvite_def Let_def)
  have aged: "delaysOf RingingTimer effs = [lifetime (getContent event) - age]"
    if "getAge event = Some age" and "age \<noteq> 0" for age
    using that by (simp add: effs delaysOf_append no_timer)
  have unaged: "delaysOf RingingTimer effs = []"
    if "getAge event = None \<or> getAge event = Some 0"
    using that by (auto simp: effs delaysOf_append no_timer)
  have expiry: "ringingTimerFired later =
            Inr (later\<lparr>state := Ended, hangupParty := Some Remote\<rparr>,
                 (case localAVStream later of
                    None \<Rightarrow> []
                  | Some s \<Rightarrow>
                      map (\<lambda>t. StopTrack (trackId t))
                        (filter hasStop (videoTracks s @ audioTracks s))
                      @ (if streamHasStop s then [StopStream (streamId s)] else []))
                 @ (case remoteAVStream later of
                      None \<Rightarrow> []
                    | Some s \<Rightarrow>
                        map (\<lambda>t. StopTrack (trackId t))
                          (filter hasStop (videoTracks s @ audioTracks s)))
                 @ (if signalingState p \<noteq> ''closed'' then [ClosePeerConn] else [])
                 @ [Emit OnHangup])"
    if "state later = Ringing" and "peerConn later = Some p" for later p
    using that by (simp add: ringingTimerFired_def stopAllMedia_effects Let_def)
  have other: "ringingTimerFired later = Inr (later, [])" if "state later \<noteq> Ringing" for later
    using that by (simp add: ringingTimerFired_def)
  show ?thesis
    using ringing aged unaged expiry other by blast
qed

text \<open>
  The theorem at the aged invite, and at three ringing calls when the timer
  runs: one that holds no stream, one that holds the remote stream, and one that
  holds a captured stream as well.
\<close>

theorem ringing_timeout_of_aged_invite_witness:
  "initWithInvite secondCall agedInvite =
     Inr (incomingCall,
          [NewPeerConnection (AsConfigured (turnServers freshCall)) pcHooks,
           SetRemoteDescription exampleOffer (Some OnSetRemoteDescriptionSuccess)
             (Some OnSetRemoteDescriptionError),
           SetTimeout RingingTimer 15000])
   \<and> getAge agedInvite = Some 45000 \<and> (45000::int) \<noteq> 0
   \<and> lifetime (getContent agedInvite) - 45000 = 15000
   \<and> delaysOf RingingTimer
        [NewPeerConnection (AsConfigured (turnServers freshCall)) pcHooks,
         SetRemoteDescription exampleOffer (Some OnSetRemoteDescriptionSuccess)
           (Some OnSetRemoteDescriptionError),
         SetTimeout RingingTimer 15000] = [15000]
   \<and> state incomingCall = Ringing
   \<and> peerConn incomingCall = Some newPeerConn
   \<and> ringingTimerFired incomingCall =
       Inr (incomingCall\<lparr>state := Ended, hangupParty := Some Remote\<rparr>,
            [ClosePeerConn, Emit OnHangup])
   \<and> state streamingCall = Ringing
   \<and> peerConn streamingCall = Some newPeerConn
   \<and> ringingTimerFired streamingCall =
       Inr (streamingCall\<lparr>state := Ended, hangupParty := Some Remote\<rparr>,
            [StopTrack 21, ClosePeerConn, Emit OnHangup])
   \<and> state (streamingCall\<lparr>localAVStream := Some exampleStream\<rparr>) = Ringing
   \<and> peerConn (streamingCall\<lparr>localAVStream := Some exampleStream\<rparr>) = Some newPeerConn
   \<and> ringingTimerFired (streamingCall\<lparr>localAVStream := Some exampleStream\<rparr>) =
       Inr (streamingCall\<lparr>localAVStream := Some exampleStream, state := Ended,
                            hangupParty := Some Remote\<rparr>,
            [StopTrack 11, StopStream 1, StopTrack 21, ClosePeerConn, Emit OnHangup])
   \<and> state freshCall \<noteq> Ringing \<and> ringingTimerFired freshCall = Inr (freshCall, [])"
proof -
  note inst = ringing_timeout_of_aged_invite [OF initWithInvite_aged]
  have facts: "getAge agedInvite = Some 45000 \<and> (45000::int) \<noteq> 0
      \<and> lifetime (getContent agedInvite) - 45000 = 15000
      \<and> state incomingCall = Ringing \<and> peerConn incomingCall = Some newPeerConn
      \<and> state streamingCall = Ringing \<and> peerConn streamingCall = Some newPeerConn
      \<and> state (streamingCall\<lparr>localAVStream := Some exampleStream\<rparr>) = Ringing
      \<and> peerConn (streamingCall\<lparr>localAVStream := Some exampleStream\<rparr>) = Some newPeerConn
      \<and> state freshCall \<noteq> Ringing"
    by (simp add: agedInvite_def exampleCalls)
  have streams: "localAVStream incomingCall = None \<and> remoteAVStream incomingCall = None
      \<and> localAVStream streamingCall = None
      \<and> remoteAVStream streamingCall = Some remoteStream
      \<and> signalingState newPeerConn \<noteq> ''closed''"
    by (simp add: exampleCalls)
  from inst facts have timer:
    "delaysOf RingingTimer
        [NewPeerConnection (AsConfigured (turnServers freshCall)) pcHooks,
         SetRemoteDescription exampleOffer (Some OnSetRemoteDescriptionSuccess)
           (Some OnSetRemoteDescriptionError),
         SetTimeout RingingTimer 15000] = [15000]"
    by simp
  from inst facts have none:
    "ringingTimerFired incomingCall =
       Inr (incomingCall\<lparr>state := Ended, hangupParty := Some Remote\<rparr>,
            [ClosePeerConn, Emit OnHangup])"
    by (simp add: streams)
  from inst facts have remote:
    "ringingTimerFired streamingCall =
       Inr (streamingCall\<lparr>state := Ended, hangupParty := Some Remote\<rparr>,
            [StopTrack 21, ClosePeerConn, Emit OnHangup])"
    by (simp add: streams remoteStream_def)
  from inst facts have both:
    "ringingTimerFired (streamingCall\<lparr>localAVStream := Some exampleStream\<rparr>) =
       Inr (streamingCall\<lparr>localAVStream := Some exampleStream, state := Ended,
                            hangupParty := Some Remote\<rparr>,
            [StopTrack 11, StopStream 1, StopTrack 21, ClosePeerConn, Emit OnHangup])"
    by (simp add: streams remoteStream_def exampleStream_def)
  from inst facts have idle: "ringingTimerFired freshCall = Inr (freshCall, [])"
    by simp
  show ?thesis
    using initWithInvite_aged facts timer none remote both idle by simp
qed

text \<open>
  C7 as stated fails for an invite of age 0: the call rings and no timer is
  armed, so it never expires.
\<close>

theorem invite_of_age_zero_arms_no_timer:
  "getAge zeroAgeInvite = Some 0
   \<and> initWithInvite secondCall zeroAgeInvite =
       Inr (incomingCall,
            [NewPeerConnection (AsConfigured (turnServers freshCall)) pcHooks,
             SetRemoteDescription exampleOffer (Some OnSetRemoteDescriptionSuccess)
               (Some OnSetRemoteDescriptionError)])
   \<and> state incomingCall = Ringing"
  by (simp add: initWithInvite_def createPeerConnection_def zeroAgeInvite_def Let_def
      indexOf_def exampleOffer_def memberOf_def prototype_def exampleCalls)


subsection \<open>Failed media capture\<close>

lemma memberOf_names:
  "memberOf ''getUserMediaFailed'' = None"
  "memberOf ''_getUserMediaFailed'' = Some GetUserMediaFailed"
  "memberOf ''_gotUserMediaForAnswer'' = Some GotUserMediaForAnswer"
  "memberOf ''_gotUserMediaForInvite'' = Some GotUserMediaForInvite"
  "memberOf ''_onRemoteStreamStarted'' = Some OnRemoteStreamStarted"
  "memberOf ''_onRemoteStreamEnded'' = Some OnRemoteStreamEnded"
  "memberOf ''_onRemoteStreamTrackStarted'' = Some OnRemoteStreamTrackStarted"
  by (simp_all add: memberOf_def prototype_def)

text \<open>
  The place path hands out \<^verbatim>\<open>_getUserMediaFailed\<close>, which emits the error and
  hangs up.
\<close>

lemma place_path_registers_failure_callback:
  assumes "placeVoiceCall self = Inr (placed, effs)"
  shows "effs = [RegisterCall (callId self),
                 GetUserMedia (Some \<lparr>audio = True, video = NoVideo\<rparr>)
                   (Some GotUserMediaForInvite) (Some GetUserMediaFailed)]"
  using assms
  by (auto simp: placeVoiceCall_def placeCallWithConstraints_def memberOf_names
      split: sum.splits)

lemma placed_call_has_error_listener:
  assumes "placeVoiceCall self = Inr (placed, effs)"
  shows "errorListeners placed \<noteq> 0"
  using assms
  by (auto simp: placeVoiceCall_def placeCallWithConstraints_def checkForErrorListener_def
      split: sum.splits if_splits)

lemma getUserMediaFailed_emits_then_hangs_up:
  assumes "errorListeners self \<noteq> 0"
  shows "hookCallback (Some GetUserMediaFailed) a self =
           Inr (fst (hangup self Undefined Undefined),
                Emit (ErrorEvent ''no_user_media'') # snd (hangup self Undefined Undefined))"
    and "state (fst (hangup self Undefined Undefined)) = Ended"
  using assms
  by (simp_all add: getUserMediaFailed_def emitError_def ERR_NO_USER_MEDIA_def hangup_def
      terminate_def Let_def split: prod.splits)

text \<open>Without a listener the emitter throws and the call is not hung up.\<close>

lemma getUserMediaFailed_without_listener:
  assumes "errorListeners self = 0"
  shows "hookCallback (Some GetUserMediaFailed) a self = Inl (UnhandledError ''no_user_media'')"
    and "hookCallback (Some GetLocalOfferFailed) a self =
           Inl (UnhandledError ''local_offer_failed'')"
  using assms
  by (simp_all add: getUserMediaFailed_def getLocalOfferFailed_def emitError_def
      ERR_NO_USER_MEDIA_def ERR_LOCAL_OFFER_FAILED_def)

text \<open>
  C8 on the answer path. \<^verbatim>\<open>answer\<close> on a ringing call asks for media with the
  member \<^verbatim>\<open>getUserMediaFailed\<close> as failure callback; the class has no member of
  that name, so when the capture fails the hooked callback throws: no error is
  emitted and the call is not hung up.
\<close>

theorem answer_path_capture_failure_throws:
  "state incomingCall = Ringing
   \<and> answer incomingCall =
       Inr (incomingCall\<lparr>state := WaitLocalMedia\<rparr>,
            [GetUserMedia (Some \<lparr>audio = True, video = NoVideo\<rparr>)
               (Some GotUserMediaForAnswer) None])
   \<and> hookCallback None NoArg (incomingCall\<lparr>state := WaitLocalMedia\<rparr>) = Inl TypeError"
  by (simp add: answer_def exampleCalls memberOf_names)

subsection \<open>Replacement\<close>

text \<open>
  Whenever \<^verbatim>\<open>_replacedBy\<close> returns, the replaced call has emitted the hangup
  event and its reason is \<^verbatim>\<open>true\<close>.
\<close>

lemma replacedBy_emits_hangup:
  assumes "replacedBy self newCall = Inr ((old, oldEffs), (new, newEffs))"
  shows "Emit OnHangup \<in> set oldEffs \<and> hangupReason old = JBool True"
  using assms
  by (auto simp: replacedBy_def hangup_def terminate_def Let_def
      split: if_splits sum.splits prod.splits)

text \<open>
  C2 on a call whose invite is out. The stream goes to the new call, which
  starts its answer, and \<^verbatim>\<open>replaced\<close> is emitted; then \<^verbatim>\<open>hangup(true)\<close> binds
  \<^verbatim>\<open>true\<close> to the reason, so the hangup event is emitted and the published
  hangup carries the reason \<^verbatim>\<open>true\<close>.
\<close>

theorem replaced_call_emits_hangup:
  "state invitingCall = InviteSent
   \<and> replacedBy invitingCall incomingCall =
       Inr ((invitingCall\<lparr>localAVStream := None, successor := Some ''c1446336000555'',
                          state := Ended, hangupParty := Some Local,
                          hangupReason := JBool True\<rparr>,
             [Emit (Replaced ''c1446336000555''), ClosePeerConn, Emit OnHangup,
              SendEvent ''!room:example.org'' ''m.call.hangup''
                (HangupContent 0 ''c1446336000000'' (JBool True))]),
            (incomingCall\<lparr>localAVStream := Some exampleStream, state := CreateAnswer\<rparr>,
             [EnableTrack 11, AddStream exampleStream, CreateAnswerReq False]))"
  by (simp add: replacedBy_def gotUserMediaForAnswer_def hangup_def terminate_def
      stopAllMedia_def pauseElement_def bindLocalVideo_def enableAudioTracks_def
      sendEvent_def exampleCalls exampleStream_def Let_def)

subsection \<open>After the end\<close>

text \<open>
  The handlers that test for \<^verbatim>\<open>ended\<close> leave an ended call as it is.
\<close>

lemma guarded_handlers_ignore_ended_call:
  assumes "state self = Ended"
  shows "receivedAnswer self a = Inr (self, [])"
    and "gotRemoteIceCandidate self c = Inr (self, [])"
    and "onIceConnectionStateChanged self = Inr (self, [])"
    and "gotLocalOffer self d = Inr (self, [])"
    and "gotUserMediaForAnswer self s = Inr (self, [])"
  using assms
  by (simp_all add: receivedAnswer_def gotRemoteIceCandidate_def
      onIceConnectionStateChanged_def gotLocalOffer_def gotUserMediaForAnswer_def)

text \<open>
  C1 on an inbound call that got its remote stream and was then hung up by the
  remote side. \<^verbatim>\<open>_onAddStream\<close> had hooked \<^verbatim>\<open>_onRemoteStreamStarted\<close> on the stream;
  when that callback runs on the ended call, the state becomes connected.
\<close>

theorem stream_started_revives_ended_call:
  "onAddStream incomingCall remoteStream =
     (streamingCall,
      [HookTrackStarted 21 (Some OnRemoteStreamTrackStarted),
       HookStreamEnded 2 (Some OnRemoteStreamEnded),
       HookStreamStarted 2 (Some OnRemoteStreamStarted)])
   \<and> onHangupReceived streamingCall (JStr ''user_hangup'') =
       (hungUpCall, [StopTrack 21, ClosePeerConn, Emit OnHangup])
   \<and> state hungUpCall = Ended
   \<and> hookCallback (Some OnRemoteStreamStarted) NoArg hungUpCall =
       Inr (hungUpCall\<lparr>state := Connected\<rparr>, [])
   \<and> state (hungUpCall\<lparr>state := Connected\<rparr>) = Connected"
  by (simp add: onAddStream_incomingCall onHangupReceived_streamingCall
      onRemoteStreamStarted_def hungUpCall_def)

text \<open>
  The other handlers without the test. On an ended call a hangup from the remote
  side sets party and reason again, and a remote stream replaces the one the
  call holds.
\<close>

lemma unguarded_handlers_change_ended_call:
  "hangupParty (fst (onHangupReceived self reason)) = Some Remote"
  "hangupReason (fst (onHangupReceived self reason)) = reason"
  "remoteAVStream (fst (onAddStream self s)) = Some s"
  "state (fst (onRemoteStreamTrackStarted self)) = Connected"
  by (simp_all add: onHangupReceived_def terminate_def onAddStream_def
      onRemoteStreamTrackStarted_def Let_def)

end
